theory Spec2Isabelle
  imports Complex_Main
begin

section \<open>Errors raised by the Python sources\<close>

text \<open>
  Every \<^verbatim>\<open>raise\<close> of the modelled functions is a value of this type. A
  \<^verbatim>\<open>RuntimeError\<close> carries its format string and the integer that the
  source substitutes for \<^verbatim>\<open>%i\<close>.
\<close>

datatype error =
    KeyError string
  | NameError string
  | AttributeError string
  | RuntimeError string int

section \<open>The ODE Newton solver (modules/solver/solver\_nonlin.py)\<close>

subsection \<open>Construction: \<^verbatim>\<open>solver_nonlinear_ode.__init__\<close>\<close>

text \<open>
  The solver parameter dictionary, restricted to the four keys the constructor reads.
  A key that is absent from the dictionary is \<open>None\<close>.
\<close>

record solver_params =
  sp_maxiter :: "int option"
  sp_direct_solver :: "string option"
  sp_tol_res :: "real option"
  sp_tol_inc :: "real option"

record solver_nonlinear_ode =
  maxiter :: int
  direct_solver :: string
  tolres :: real
  tolinc :: real
  PTC :: bool
  solvetype :: string

text \<open>
  \<^verbatim>\<open>ioparams.check_params_solver\<close> is not part of the sources at hand; it is a
  parameter: \<open>None\<close> when it returns, \<open>Some e\<close> when it raises \<open>e\<close>.
  \<^verbatim>\<open>try: self.maxiter = solver_params['maxiter']  except: self.maxiter = 25\<close>
  gives a default; \<^verbatim>\<open>self.tolres = solver_params['tol_res']\<close> has no
  \<^verbatim>\<open>try\<close> around it, so a missing key raises \<^verbatim>\<open>KeyError\<close>.
\<close>

definition solver_nonlinear_ode_init ::
  "(solver_params \<Rightarrow> error option) \<Rightarrow> solver_params \<Rightarrow> error + solver_nonlinear_ode" where
  "solver_nonlinear_ode_init check_params_solver p =
     (case check_params_solver p of
        Some e \<Rightarrow> Inl e
      | None \<Rightarrow>
         (let mi = (case sp_maxiter p of Some m \<Rightarrow> m | None \<Rightarrow> 25);
              dsv = (case sp_direct_solver p of Some d \<Rightarrow> d | None \<Rightarrow> ''mumps'')
          in case sp_tol_res p of
               None \<Rightarrow> Inl (KeyError ''tol_res'')
             | Some tr \<Rightarrow>
                (case sp_tol_inc p of
                   None \<Rightarrow> Inl (KeyError ''tol_inc'')
                 | Some ti \<Rightarrow>
                    Inr \<lparr>maxiter = mi, direct_solver = dsv, tolres = tr, tolinc = ti,
                         PTC = False, solvetype = ''direct''\<rparr>)))"

subsection \<open>The iteration: \<^verbatim>\<open>solver_nonlinear_ode.newton\<close>\<close>

text \<open>
  A PETSc vector is a list of reals. The problem object \<^verbatim>\<open>self.pb\<close> and the
  linear solver \<^verbatim>\<open>self.ksp[0]\<close> are given by three functions: the residual
  and the Jacobian assembled at the current solution \<^verbatim>\<open>self.pb.s\<close> and time
  \<open>t\<close>, and the solution of the linear system for a right-hand side.
\<close>

type_synonym vec = "real list"

record 'm ode_problem =
  assemble_residual :: "vec \<Rightarrow> real \<Rightarrow> vec"
  assemble_stiffness :: "vec \<Rightarrow> real \<Rightarrow> 'm"
  ksp_solve :: "'m \<Rightarrow> vec \<Rightarrow> vec"

definition vec_neg :: "vec \<Rightarrow> vec" where
  "vec_neg r = map uminus r"

text \<open>\<^verbatim>\<open>y.axpy(a, x)\<close>: \<open>y := y + a x\<close>.\<close>

definition axpy :: "vec \<Rightarrow> real \<Rightarrow> vec \<Rightarrow> vec" where
  "axpy y a x = map2 (\<lambda>yi xi. yi + a * xi) y x"

text \<open>\<^verbatim>\<open>r.norm()\<close>: the 2-norm.\<close>

definition vec_norm :: "vec \<Rightarrow> real" where
  "vec_norm r = sqrt (sum_list (map (\<lambda>x. x * x) r))"

text \<open>
  Modelled from the spec: \<^verbatim>\<open>sol_utils.check_converged\<close> (module
  \<^verbatim>\<open>solver_utils\<close>) is missing from the sources. The specification says: both
  the residual norm and the increment norm must fall under configured absolute
  tolerances.
\<close>

definition check_converged :: "real \<Rightarrow> real \<Rightarrow> real \<Rightarrow> real \<Rightarrow> bool" where
  "check_converged resnorm incnorm tol_res tol_inc \<longleftrightarrow> resnorm < tol_res \<and> incnorm < tol_inc"

text \<open>
  What a converged call leaves behind: the solution, \<^verbatim>\<open>self.ni\<close>, the two norms,
  and the number of Jacobian assemblies and linear solves performed (the trace of the
  calls to \<^verbatim>\<open>assemble_stiffness\<close> and \<^verbatim>\<open>ksp[0].solve\<close>).
\<close>

record newton_result =
  nr_s :: vec
  nr_ni :: int
  nr_resnorm :: real
  nr_incnorm :: real
  nr_jac_evals :: nat
  nr_lin_solves :: nat

text \<open>One pass through the body of the \<^verbatim>\<open>while\<close> loop, up to the new residual.\<close>

definition newton_update :: "'m ode_problem \<Rightarrow> real \<Rightarrow> vec \<times> vec \<Rightarrow> vec \<times> vec \<times> vec" where
  "newton_update pb t sr =
     (let K = assemble_stiffness pb (fst sr) t;
          ds = ksp_solve pb K (vec_neg (snd sr));
          s' = axpy (fst sr) 1 ds;
          r' = assemble_residual pb s' t
      in (s', r', ds))"

function newton_loop ::
  "'m ode_problem \<Rightarrow> solver_nonlinear_ode \<Rightarrow> real \<Rightarrow> int \<Rightarrow> vec \<times> vec \<Rightarrow> nat
     \<Rightarrow> error + newton_result" where
  "newton_loop pb sol t it sr n =
     (if it < maxiter sol then
        (case newton_update pb t sr of
           (s', r', ds) \<Rightarrow>
             if check_converged (vec_norm r') (vec_norm ds) (tolres sol) (tolinc sol)
             then Inr \<lparr>nr_s = s', nr_ni = (it + 1) - 1, nr_resnorm = vec_norm r',
                       nr_incnorm = vec_norm ds, nr_jac_evals = Suc n, nr_lin_solves = Suc n\<rparr>
             else newton_loop pb sol t (it + 1) (s', r') (Suc n))
      else Inl (RuntimeError ''Newton for ODE system did not converge after %i iterations!'' it))"
  by pat_completeness auto
termination
  by (relation "measure (\<lambda>(pb, sol, t, it, sr, n). nat (maxiter sol - it))") auto

declare newton_loop.simps [simp del]

text \<open>
  \<^verbatim>\<open>it = 0\<close>, the initial residual, \<^verbatim>\<open>it += 1\<close>, then the loop. No convergence
  test stands between the initial residual and the first pass of the loop.
\<close>

definition newton :: "'m ode_problem \<Rightarrow> solver_nonlinear_ode \<Rightarrow> real \<Rightarrow> vec \<Rightarrow> error + newton_result" where
  "newton pb sol t s = newton_loop pb sol t (0 + 1) (s, assemble_residual pb s t) 0"

text \<open>The undamped Newton sequence: \<open>k\<close> full steps from the start.\<close>

fun newton_iterate :: "'m ode_problem \<Rightarrow> real \<Rightarrow> nat \<Rightarrow> vec \<times> vec \<Rightarrow> vec \<times> vec \<times> vec" where
  "newton_iterate pb t 0 sr = (fst sr, snd sr, [])"
| "newton_iterate pb t (Suc k) sr =
     (case newton_iterate pb t k sr of (s, r, ds) \<Rightarrow> newton_update pb t (s, r))"

definition converged_at :: "'m ode_problem \<Rightarrow> solver_nonlinear_ode \<Rightarrow> real \<Rightarrow> vec \<Rightarrow> nat \<Rightarrow> bool" where
  "converged_at pb sol t s k =
     (case newton_iterate pb t k (s, assemble_residual pb s t) of
        (s', r', ds) \<Rightarrow> check_converged (vec_norm r') (vec_norm ds) (tolres sol) (tolinc sol))"

text \<open>The convergence test applied to a triple (solution, residual, increment).\<close>

definition conv_of :: "solver_nonlinear_ode \<Rightarrow> vec \<times> vec \<times> vec \<Rightarrow> bool" where
  "conv_of sol x = check_converged (vec_norm (fst (snd x))) (vec_norm (snd (snd x))) (tolres sol) (tolinc sol)"

section \<open>The activation curves of the demo (demos/flow0d/bleed.py)\<close>

text \<open>
  Floating-point numbers are modelled as reals. The three timing entries of the
  dictionary returned by \<^verbatim>\<open>param()\<close>; they are the same for both values of
  its argument \<^verbatim>\<open>bleed\<close>.
\<close>

definition param_T_cycl :: real where
  "param_T_cycl = 0.4"

definition param_t_ed :: real where
  "param_t_ed = 0.2 * param_T_cycl"

definition param_t_es :: real where
  "param_t_es = 0.53 * param_T_cycl"

text \<open>
  Python's \<^verbatim>\<open>x % y\<close> on floats, for \<open>y \<noteq> 0\<close>: the remainder of the floored
  division, which has the sign of \<open>y\<close>.
\<close>

definition py_fmod :: "real \<Rightarrow> real \<Rightarrow> real" where
  "py_fmod x y = x - y * of_int \<lfloor>x / y\<rfloor>"

text \<open>\<^verbatim>\<open>time_curves.tc1\<close>: the activation curve of the atria.\<close>

definition tc1 :: "real \<Rightarrow> real" where
  "tc1 t =
     (let tmod = py_fmod t param_T_cycl;
          act_dur = 2 * param_t_ed;
          t0 = 0
      in if tmod \<ge> t0 \<and> tmod \<le> t0 + act_dur
         then 0.5 * (1 - cos (2 * pi * (tmod - t0) / act_dur))
         else 0)"

text \<open>\<^verbatim>\<open>time_curves.tc2\<close>: the activation curve of the ventricles.\<close>

definition tc2 :: "real \<Rightarrow> real" where
  "tc2 t =
     (let tmod = py_fmod t param_T_cycl;
          act_dur = 1.8 * (param_t_es - param_t_ed);
          t0 = param_t_ed
      in if tmod \<ge> t0 \<and> tmod \<le> t0 + act_dur
         then 0.5 * (1 - cos (2 * pi * (tmod - t0) / act_dur))
         else 0)"

section \<open>The 0D flow problem (modules/flow0d/flow0d.py)\<close>

subsection \<open>Construction: \<^verbatim>\<open>Flow0DProblem.__init__\<close>\<close>

text \<open>
  Dictionary entries that the constructor only hands on (chamber models, the parameter
  dictionary of the 0D model, initial conditions) are values of \<open>pyval\<close>.
\<close>

datatype pyval =
    PNone
  | PBool bool
  | PInt int
  | PFloat real
  | PStr string
  | PList "pyval list"
  | PDict "(string \<times> pyval) list"

text \<open>
  The value of \<^verbatim>\<open>periodic_checktype\<close>: the default is the string
  \<^verbatim>\<open>'allvar'\<close>, the demo passes the list \<^verbatim>\<open>['allvar']\<close>.
\<close>

datatype checktype = CheckStr string | CheckList "string list"

text \<open>
  The four dictionaries, each restricted to the keys the constructor reads; an absent
  key is \<open>None\<close>. For \<^verbatim>\<open>perturb_type\<close>, \<open>None\<close> also stands for the Python
  value \<^verbatim>\<open>None\<close>, which the source treats like the absent key.
\<close>

record io_params =
  io_simname :: "string option"
  io_prescribed_path :: "string option"
  io_write_results_every_0D :: "int option"
  io_write_results_every :: "int option"
  io_write_restart_every :: "int option"
  io_output_path_0D :: "string option"
  io_output_path :: "string option"

record time_params =
  tp_initial_file :: "string option"
  tp_eps_periodic :: "real option"
  tp_periodic_checktype :: "checktype option"
  tp_theta_ost :: "real option"
  tp_initial_conditions :: "pyval option"

record model_params =
  mp_chamber_models :: "pyval option"
  mp_chamber_interfaces :: "pyval option"
  mp_have_elastance :: "bool option"
  mp_valvelaw :: "string option"
  mp_prescribed_variables :: "pyval option"
  mp_perturb_type :: "string option"
  mp_perturb_after_cylce :: "int option"
  mp_modeltype :: "string option"
  mp_parameters :: "pyval option"

record coupling_params =
  cp_coupling_quantity :: "string option"

text \<open>
  What \<^verbatim>\<open>problem_base.__init__\<close> (module \<^verbatim>\<open>base\<close>, not among the sources)
  leaves in the object and the time loop reads.
\<close>

record problem_base =
  dt :: real
  numstep :: int
  restart_step :: int
  t_init :: real

text \<open>
  The model classes live in modules that are not among the sources. An instance is the
  class together with the arguments of the constructor call: \<open>theta\<close>, the parameter
  dictionary and \<^verbatim>\<open>cq\<close> for the Windkessel models; for the closed-loop models also
  \<^verbatim>\<open>chmodels\<close>, \<^verbatim>\<open>chinterf\<close>, \<^verbatim>\<open>prescrpath\<close>, \<^verbatim>\<open>have_elast\<close> and
  \<^verbatim>\<open>valvelaw\<close>.
\<close>

record closed_loop_args =
  cl_theta :: real
  cl_params :: pyval
  cl_chmodels :: pyval
  cl_chinterf :: pyval
  cl_prescrpath :: "string option"
  cl_have_elast :: bool
  cl_cq :: string
  cl_valvelaw :: string

datatype cardvasc0D =
    cardiovascular0D2elwindkessel real pyval string
  | cardiovascular0D4elwindkesselLsZ real pyval string
  | cardiovascular0D4elwindkesselLpZ real pyval string
  | cardiovascular0Dsyspul closed_loop_args
  | cardiovascular0Dsyspulcap closed_loop_args
  | cardiovascular0Dsyspulcap2 closed_loop_args
  | cardiovascular0Dsyspulcaprespir closed_loop_args

record Flow0DProblem =
  base :: problem_base
  problem_physics :: string
  simname :: string
  write_results_every_0D :: int
  write_restart_every :: int
  output_path_0D :: string
  cq :: string
  eps_periodic :: real
  periodic_checktype :: checktype
  prescribed_variables :: pyval
  perturb_type :: "string option"
  perturb_after_cylce :: int
  cardvasc0D :: cardvasc0D
  initialconditions :: pyval
  theta_ost :: real

text \<open>\<^verbatim>\<open>d[k]\<close>: the value, or \<^verbatim>\<open>KeyError\<close>.\<close>

definition getitem :: "'a option \<Rightarrow> string \<Rightarrow> error + 'a" where
  "getitem v k = (case v of None \<Rightarrow> Inl (KeyError k) | Some x \<Rightarrow> Inr x)"

text \<open>\<^verbatim>\<open>try: x = d[k]  except: x = dflt\<close>.\<close>

definition get_default :: "'a option \<Rightarrow> 'a \<Rightarrow> 'a" where
  "get_default v dflt = (case v of None \<Rightarrow> dflt | Some x \<Rightarrow> x)"

text \<open>
  The arguments \<^verbatim>\<open>time_params['theta_ost'], model_params['parameters']\<close> of a
  constructor call are evaluated in this order, inside the branch that was chosen.
\<close>

definition theta_and_parameters ::
  "time_params \<Rightarrow> model_params \<Rightarrow> (real \<Rightarrow> pyval \<Rightarrow> cardvasc0D) \<Rightarrow> error + cardvasc0D" where
  "theta_and_parameters tp mp mk =
     (case getitem (tp_theta_ost tp) ''theta_ost'' of
        Inl e \<Rightarrow> Inl e
      | Inr th \<Rightarrow>
         (case getitem (mp_parameters mp) ''parameters'' of
            Inl e \<Rightarrow> Inl e
          | Inr pa \<Rightarrow> Inr (mk th pa)))"

text \<open>
  The \<^verbatim>\<open>if\<close>/\<^verbatim>\<open>elif\<close> chain over \<^verbatim>\<open>model_params['modeltype']\<close>, in the
  order of the source, with its final \<^verbatim>\<open>raise NameError("Unknown 0D modeltype!")\<close>.
\<close>

definition initialize_0D_model ::
  "time_params \<Rightarrow> model_params \<Rightarrow> pyval \<Rightarrow> pyval \<Rightarrow> string option \<Rightarrow> bool \<Rightarrow> string \<Rightarrow> string
     \<Rightarrow> error + cardvasc0D" where
  "initialize_0D_model tp mp chamber_models chamber_interfaces prescribed_path have_elastance
       cqv valvelaw =
     (case getitem (mp_modeltype mp) ''modeltype'' of
        Inl e \<Rightarrow> Inl e
      | Inr modeltype \<Rightarrow>
         (let cl = (\<lambda>th pa. \<lparr>cl_theta = th, cl_params = pa, cl_chmodels = chamber_models,
                       cl_chinterf = chamber_interfaces, cl_prescrpath = prescribed_path,
                       cl_have_elast = have_elastance, cl_cq = cqv, cl_valvelaw = valvelaw\<rparr>)
          in if modeltype = ''2elwindkessel'' then
               theta_and_parameters tp mp (\<lambda>th pa. cardiovascular0D2elwindkessel th pa cqv)
             else if modeltype = ''4elwindkesselLsZ'' then
               theta_and_parameters tp mp (\<lambda>th pa. cardiovascular0D4elwindkesselLsZ th pa cqv)
             else if modeltype = ''4elwindkesselLpZ'' then
               theta_and_parameters tp mp (\<lambda>th pa. cardiovascular0D4elwindkesselLpZ th pa cqv)
             else if modeltype = ''syspul'' then
               theta_and_parameters tp mp (\<lambda>th pa. cardiovascular0Dsyspul (cl th pa))
             else if modeltype = ''syspulcap'' then
               theta_and_parameters tp mp (\<lambda>th pa. cardiovascular0Dsyspulcap (cl th pa))
             else if modeltype = ''syspulcap2'' then
               theta_and_parameters tp mp (\<lambda>th pa. cardiovascular0Dsyspulcap2 (cl th pa))
             else if modeltype = ''syspulcaprespir'' then
               theta_and_parameters tp mp (\<lambda>th pa. cardiovascular0Dsyspulcaprespir (cl th pa))
             else Inl (NameError ''Unknown 0D modeltype!'')))"

text \<open>
  The constructor, statement by statement. \<open>b\<close> is the part of the object set by
  \<^verbatim>\<open>problem_base.__init__\<close>; \<open>set_initial_from_file\<close> stands for the method of the
  model class that reads initial conditions from a file. The PETSc vectors created
  after the model are part of the state of the time loop below.
\<close>

definition Flow0DProblem_init ::
  "(cardvasc0D \<Rightarrow> string \<Rightarrow> pyval) \<Rightarrow> problem_base \<Rightarrow> io_params \<Rightarrow> time_params \<Rightarrow> model_params
     \<Rightarrow> coupling_params \<Rightarrow> error + Flow0DProblem" where
  "Flow0DProblem_init set_initial_from_file b io tp mp cp =
     (case getitem (io_simname io) ''simname'' of
        Inl e \<Rightarrow> Inl e
      | Inr sn \<Rightarrow>
     (let chamber_models = get_default (mp_chamber_models mp)
            (PDict [(''lv'', PStr ''0D_elast''), (''rv'', PStr ''0D_elast''),
                    (''la'', PStr ''0D_elast''), (''ra'', PStr ''0D_elast'')]);
          chamber_interfaces = get_default (mp_chamber_interfaces mp)
            (PDict [(''lv'', PInt 1), (''rv'', PInt 1), (''la'', PInt 1), (''ra'', PInt 1)]);
          prescribed_path = io_prescribed_path io;
          initial_file = get_default (tp_initial_file tp) ''''
      in
     (case (case io_write_results_every_0D io of
              Some w \<Rightarrow> Inr w
            | None \<Rightarrow> getitem (io_write_results_every io) ''write_results_every'') of
        Inl e \<Rightarrow> Inl e
      | Inr wre0D \<Rightarrow>
     (let wrst = get_default (io_write_restart_every io) (- 1) in
     (case (case io_output_path_0D io of
              Some p \<Rightarrow> Inr p
            | None \<Rightarrow> getitem (io_output_path io) ''output_path'') of
        Inl e \<Rightarrow> Inl e
      | Inr outp \<Rightarrow>
     (let have_elastance = get_default (mp_have_elastance mp) False;
          valvelaw = get_default (mp_valvelaw mp) ''pwlin_pres'';
          cqv = get_default (cp_coupling_quantity cp) ''volume'';
          eps = get_default (tp_eps_periodic tp) (1 / 10 ^ 20);
          chk = get_default (tp_periodic_checktype tp) (CheckStr ''allvar'');
          pv = get_default (mp_prescribed_variables mp) (PDict []);
          ptype = mp_perturb_type mp;
          pac = get_default (mp_perturb_after_cylce mp) (- 1);
          pac' = (if ptype = None then - 1 else pac)
      in
     (case initialize_0D_model tp mp chamber_models chamber_interfaces prescribed_path
             have_elastance cqv valvelaw of
        Inl e \<Rightarrow> Inl e
      | Inr cv \<Rightarrow>
     (case (if initial_file \<noteq> '''' then Inr (set_initial_from_file cv initial_file)
            else getitem (tp_initial_conditions tp) ''initial_conditions'') of
        Inl e \<Rightarrow> Inl e
      | Inr ic \<Rightarrow>
     (case getitem (tp_theta_ost tp) ''theta_ost'' of
        Inl e \<Rightarrow> Inl e
      | Inr th \<Rightarrow>
          Inr \<lparr>base = b, problem_physics = ''flow0d'', simname = sn,
               write_results_every_0D = wre0D, write_restart_every = wrst,
               output_path_0D = outp, cq = cqv, eps_periodic = eps,
               periodic_checktype = chk, prescribed_variables = pv,
               perturb_type = ptype, perturb_after_cylce = pac',
               cardvasc0D = cv, initialconditions = ic, theta_ost = th\<rparr>)))))))))"

text \<open>The tags the chain recognises.\<close>

definition recognized_modeltypes :: "string list" where
  "recognized_modeltypes =
     [''2elwindkessel'', ''4elwindkesselLsZ'', ''4elwindkesselLpZ'', ''syspul'', ''syspulcap'',
      ''syspulcap2'', ''syspulcaprespir'']"

subsection \<open>The time loop: \<^verbatim>\<open>Flow0DSolver.solve_problem\<close>\<close>

text \<open>
  The mutable part of the problem object: the PETSc vectors and numpy arrays created
  by the constructor, the list \<^verbatim>\<open>c\<close>, the cycle counter \<^verbatim>\<open>ti.cycle[0]\<close> and the
  cycle error \<^verbatim>\<open>ti.cycleerror[0]\<close>, the state of the model object
  \<^verbatim>\<open>cardvasc0D\<close> (its parameters and flags, of a type \<open>'m\<close> left open), the
  simulation name and initial time (both changed by a restart), and what the run has
  printed and written so far.
\<close>

datatype event =
    print_to_screen vec vec
  | print_timestep int real int
  | write_output string real vec vec string
  | writerestart string int
  | print_periodicity_reached int real

record 'm flow0d_state =
  st_s :: vec
  st_s_old :: vec
  st_s_mid :: vec
  st_aux :: vec
  st_aux_old :: vec
  st_aux_mid :: vec
  st_df :: vec
  st_df_old :: vec
  st_f :: vec
  st_f_old :: vec
  st_sTc :: vec
  st_sTc_old :: vec
  st_c :: "real list"
  st_cycle :: int
  st_cycleerror :: real
  st_model :: 'm
  st_simname :: string
  st_t_init :: real
  st_out :: "event list"

text \<open>
  The arguments of the call of \<^verbatim>\<open>cycle_check\<close>, and what the call returns and
  leaves in the objects it was given (\<^verbatim>\<open>sTc\<close>, \<^verbatim>\<open>sTc_old\<close>, the one-element
  lists \<^verbatim>\<open>cycle\<close> and \<^verbatim>\<open>cycleerror\<close>).
\<close>

record cycle_check_args =
  cc_s :: vec
  cc_sTc :: vec
  cc_sTc_old :: vec
  cc_t :: real
  cc_cycle :: int
  cc_cycleerror :: real
  cc_eps_periodic :: real
  cc_check :: checktype
  cc_inioutpath :: string
  cc_nm :: string
  cc_induce_pert_after_cycl :: int

record cycle_check_result =
  ccr_is_periodic :: bool
  ccr_sTc :: vec
  ccr_sTc_old :: vec
  ccr_cycle :: int
  ccr_cycleerror :: real

text \<open>
  What the 0D Newton solver \<^verbatim>\<open>self.solnln.newton(self.pb.s, t - t_off)\<close> works on:
  the current solution, the quantities of the last converged step, the external
  values \<^verbatim>\<open>c\<close>, the step size and the time. The class
  \<^verbatim>\<open>solver_nonlinear_0D\<close> that \<^verbatim>\<open>Flow0DSolver.__init__\<close> instantiates is not
  among the sources.
\<close>

record newton_args =
  na_s :: vec
  na_s_old :: vec
  na_df_old :: vec
  na_f_old :: vec
  na_aux_old :: vec
  na_c :: "real list"
  na_dt :: real
  na_t :: real

text \<open>
  The collaborators of the time loop that are not among the sources, each with the
  arguments of its call site. The methods of the model object take its state \<open>'m\<close>
  first.
  \<^item> \<open>cv_T_cycl\<close>: the attribute \<^verbatim>\<open>cardvasc0D.T_cycl\<close>;
  \<^item> \<open>cv_evaluate m s dt t c\<close>: \<^verbatim>\<open>evaluate\<close>, which fills \<^verbatim>\<open>df\<close>, \<^verbatim>\<open>f\<close> and
    \<^verbatim>\<open>aux\<close>;
  \<^item> \<open>cv_midpoint_avg m v v_old\<close>: \<^verbatim>\<open>midpoint_avg\<close>, which fills its third
    argument;
  \<^item> \<open>cv_update m (s, df, f, aux) (s_old, df_old, f_old, aux_old)\<close>: \<^verbatim>\<open>update\<close>,
    which fills the four old vectors;
  \<^item> \<open>cv_cycle_check\<close>, \<open>cv_induce_perturbation m perturb_type cycle after\<close>;
  \<^item> \<open>cv_read_restart path name rst\<close>: the vector \<^verbatim>\<open>read_restart\<close> loads;
    \<open>loadtxt_cycledata file\<close>: the two columns of the cycle data file;
    \<open>py_str\<close>: \<^verbatim>\<open>str\<close> on integers;
  \<^item> \<open>ti_timecurves1\<close>: \<^verbatim>\<open>ti.timecurves(1)\<close>, or \<open>None\<close> when
    \<^verbatim>\<open>ti.time_curves\<close> is \<^verbatim>\<open>None\<close>;
  \<^item> \<open>solnln_newton\<close>: the Newton solve of one step, returning the new \<^verbatim>\<open>s\<close>,
    \<^verbatim>\<open>df\<close>, \<^verbatim>\<open>f\<close> and \<^verbatim>\<open>aux\<close>, or the error it raises;
  \<^item> \<open>pbs_numstep_stop\<close>: \<^verbatim>\<open>self.pb.pbs.numstep_stop\<close>, or \<open>None\<close> when the
    attribute lookup raises (the source catches that and goes on).
\<close>

record 'm externals =
  cv_T_cycl :: "'m \<Rightarrow> real"
  cv_evaluate :: "'m \<Rightarrow> vec \<Rightarrow> real \<Rightarrow> real \<Rightarrow> real list \<Rightarrow> vec \<times> vec \<times> vec"
  cv_midpoint_avg :: "'m \<Rightarrow> vec \<Rightarrow> vec \<Rightarrow> vec"
  cv_update :: "'m \<Rightarrow> vec \<times> vec \<times> vec \<times> vec \<Rightarrow> vec \<times> vec \<times> vec \<times> vec \<Rightarrow> vec \<times> vec \<times> vec \<times> vec"
  cv_cycle_check :: "'m \<Rightarrow> cycle_check_args \<Rightarrow> cycle_check_result"
  cv_induce_perturbation :: "'m \<Rightarrow> string \<Rightarrow> int \<Rightarrow> int \<Rightarrow> 'm"
  cv_read_restart :: "string \<Rightarrow> string \<Rightarrow> int \<Rightarrow> vec"
  loadtxt_cycledata :: "string \<Rightarrow> int \<times> real"
  py_str :: "int \<Rightarrow> string"
  ti_timecurves1 :: "(real \<Rightarrow> real) option"
  solnln_newton :: "'m \<Rightarrow> newton_args \<Rightarrow> error + vec \<times> vec \<times> vec \<times> vec"
  pbs_numstep_stop :: "int option"

text \<open>\<^verbatim>\<open>Flow0DProblem.readrestart(sname, rst)\<close>.\<close>

definition readrestart :: "'m externals \<Rightarrow> Flow0DProblem \<Rightarrow> string \<Rightarrow> int \<Rightarrow> 'm flow0d_state \<Rightarrow> 'm flow0d_state" where
  "readrestart M pb sname rst st =
     (let st1 = st\<lparr>st_s := cv_read_restart M (output_path_0D pb) (sname @ ''_s'') rst,
                   st_s_old := cv_read_restart M (output_path_0D pb) (sname @ ''_s'') rst,
                   st_aux := cv_read_restart M (output_path_0D pb) (sname @ ''_aux'') rst,
                   st_aux_old := cv_read_restart M (output_path_0D pb) (sname @ ''_aux'') rst,
                   st_sTc_old := cv_read_restart M (output_path_0D pb) (sname @ ''_sTc_old'') rst\<rparr>
      in if cv_T_cycl M (st_model st) > 0 then
           (let cd = loadtxt_cycledata M
                       (output_path_0D pb @ ''/checkpoint_'' @ sname @ ''_cycledata_'' @
                        py_str M rst @ ''.txt'')
            in st1\<lparr>st_cycle := fst cd, st_cycleerror := snd cd,
                   st_t_init := st_t_init st - real_of_int (fst cd - 1) * cv_T_cycl M (st_model st)\<rparr>)
         else st1)"

text \<open>The argument list of the call of \<^verbatim>\<open>cycle_check\<close> in the loop body.\<close>

definition cycle_check_call :: "Flow0DProblem \<Rightarrow> 'm flow0d_state \<Rightarrow> real \<Rightarrow> cycle_check_args" where
  "cycle_check_call pb st t_rel =
     \<lparr>cc_s = st_s st, cc_sTc = st_sTc st, cc_sTc_old = st_sTc_old st, cc_t = t_rel,
      cc_cycle = st_cycle st, cc_cycleerror = st_cycleerror st,
      cc_eps_periodic = eps_periodic pb, cc_check = periodic_checktype pb,
      cc_inioutpath = output_path_0D pb, cc_nm = st_simname st,
      cc_induce_pert_after_cycl = perturb_after_cylce pb\<rparr>"

text \<open>
  The body of the \<^verbatim>\<open>for\<close> loop for step \<open>N\<close>, after the line
  \<^verbatim>\<open>self.solnln.newton(self.pb.s, t-t_off)\<close> has returned, in five parts. First
  the midpoint values, the update of the old quantities and the two prints: \<open>x\<close> is
  what the solve left in \<^verbatim>\<open>s\<close>, \<^verbatim>\<open>df\<close>, \<^verbatim>\<open>f\<close> and \<^verbatim>\<open>aux\<close>, and \<open>c1\<close>
  the list \<^verbatim>\<open>c\<close>.
\<close>

definition store_solution ::
  "'m externals \<Rightarrow> Flow0DProblem \<Rightarrow> int \<Rightarrow> real \<Rightarrow> real list \<Rightarrow> vec \<times> vec \<times> vec \<times> vec
     \<Rightarrow> 'm flow0d_state \<Rightarrow> 'm flow0d_state" where
  "store_solution M pb N t c1 x st =
     (let s1 = fst x; df1 = fst (snd x); f1 = fst (snd (snd x)); aux1 = snd (snd (snd x));
          s_mid1 = cv_midpoint_avg M (st_model st) s1 (st_s_old st);
          aux_mid1 = cv_midpoint_avg M (st_model st) aux1 (st_aux_old st);
          upd = cv_update M (st_model st) (s1, df1, f1, aux1)
                  (st_s_old st, st_df_old st, st_f_old st, st_aux_old st)
      in st\<lparr>st_s := s1, st_df := df1, st_f := f1, st_aux := aux1,
            st_s_mid := s_mid1, st_aux_mid := aux_mid1,
            st_s_old := fst upd, st_df_old := fst (snd upd),
            st_f_old := fst (snd (snd upd)), st_aux_old := snd (snd (snd upd)),
            st_c := c1,
            st_out := st_out st @
              [print_to_screen s_mid1 aux_mid1, print_timestep N t (numstep (base pb))]\<rparr>)"

text \<open>The cycle check: the new state and the flag \<^verbatim>\<open>is_periodic\<close>.\<close>

definition cycle_check_step ::
  "'m externals \<Rightarrow> Flow0DProblem \<Rightarrow> real \<Rightarrow> 'm flow0d_state \<Rightarrow> 'm flow0d_state \<times> bool" where
  "cycle_check_step M pb t_rel st =
     (let r = cv_cycle_check M (st_model st) (cycle_check_call pb st t_rel)
      in (st\<lparr>st_sTc := ccr_sTc r, st_sTc_old := ccr_sTc_old r,
             st_cycle := ccr_cycle r, st_cycleerror := ccr_cycleerror r\<rparr>,
          ccr_is_periodic r))"

text \<open>
  \<^verbatim>\<open>if self.pb.perturb_type is not None: self.pb.cardvasc0D.induce_perturbation(...)\<close>.
\<close>

definition perturbation_step :: "'m externals \<Rightarrow> Flow0DProblem \<Rightarrow> 'm flow0d_state \<Rightarrow> 'm flow0d_state" where
  "perturbation_step M pb st =
     (case perturb_type pb of
        None \<Rightarrow> st
      | Some ptype \<Rightarrow>
          st\<lparr>st_model := cv_induce_perturbation M (st_model st) ptype (st_cycle st)
                            (perturb_after_cylce pb)\<rparr>)"

text \<open>The result file and the restart file.\<close>

definition output_step :: "Flow0DProblem \<Rightarrow> int \<Rightarrow> real \<Rightarrow> 'm flow0d_state \<Rightarrow> 'm flow0d_state" where
  "output_step pb N t st =
     (let st4 = (if write_results_every_0D pb > 0 \<and> N mod write_results_every_0D pb = 0
                 then st\<lparr>st_out := st_out st @
                        [write_output (output_path_0D pb) t (st_s_mid st) (st_aux_mid st)
                           (st_simname st)]\<rparr>
                 else st)
      in if write_restart_every pb > 0 \<and> N mod write_restart_every pb = 0
         then st4\<lparr>st_out := st_out st4 @ [writerestart (st_simname st4) N]\<rparr>
         else st4)"

text \<open>
  The two \<^verbatim>\<open>break\<close> statements: the state, and whether the loop is left.
\<close>

definition break_step :: "'m externals \<Rightarrow> int \<Rightarrow> bool \<Rightarrow> 'm flow0d_state \<Rightarrow> 'm flow0d_state \<times> bool" where
  "break_step M N is_periodic st =
     (if is_periodic then
        (st\<lparr>st_out := st_out st @
              [print_periodicity_reached (st_cycle st - 1) (st_cycleerror st)]\<rparr>, True)
      else (st, pbs_numstep_stop M = Some N))"

definition after_newton ::
  "'m externals \<Rightarrow> Flow0DProblem \<Rightarrow> int \<Rightarrow> 'm flow0d_state \<Rightarrow> real \<Rightarrow> real \<Rightarrow> real list
     \<Rightarrow> vec \<times> vec \<times> vec \<times> vec \<Rightarrow> 'm flow0d_state \<times> bool" where
  "after_newton M pb N st t t_off c1 x =
     (let st1 = store_solution M pb N t c1 x st;
          cc = cycle_check_step M pb (t - t_off) st1;
          st3 = perturbation_step M pb (fst cc);
          st5 = output_step pb N t st3
      in break_step M N (snd cc) st5)"

text \<open>The arguments of the Newton solve of step \<open>N\<close>.\<close>

definition newton_call :: "'m externals \<Rightarrow> Flow0DProblem \<Rightarrow> int \<Rightarrow> 'm flow0d_state \<Rightarrow> newton_args" where
  "newton_call M pb N st =
     (let t = real_of_int N * dt (base pb);
          t_off = real_of_int (st_cycle st - 1) * cv_T_cycl M (st_model st);
          c1 = (case ti_timecurves1 M of
                  None \<Rightarrow> st_c st
                | Some tc \<Rightarrow> (st_c st)[0 := tc (t - t_off)])
      in \<lparr>na_s = st_s st, na_s_old = st_s_old st, na_df_old = st_df_old st,
          na_f_old = st_f_old st, na_aux_old = st_aux_old st, na_c = c1,
          na_dt = dt (base pb), na_t = t - t_off\<rparr>)"

text \<open>
  The whole body of the loop for step \<open>N\<close>: the current time, the time offset of the
  current cycle, the external value from the time curve, the Newton solve (whose
  error ends the run), and the rest of the body. Times are real numbers: the product
  \<^verbatim>\<open>N * dt\<close> and the difference \<^verbatim>\<open>t - t_off\<close> are exact, the rounding of the
  floating-point operations is not modelled.
\<close>

definition time_step ::
  "'m externals \<Rightarrow> Flow0DProblem \<Rightarrow> int \<Rightarrow> 'm flow0d_state \<Rightarrow> error + ('m flow0d_state \<times> bool)" where
  "time_step M pb N st =
     (let t = real_of_int N * dt (base pb);
          t_off = real_of_int (st_cycle st - 1) * cv_T_cycl M (st_model st);
          c1 = na_c (newton_call M pb N st)
      in case solnln_newton M (st_model st) (newton_call M pb N st) of
           Inl e \<Rightarrow> Inl e
         | Inr x \<Rightarrow> Inr (after_newton M pb N st t t_off c1 x))"

text \<open>
  \<^verbatim>\<open>for N in range(restart_step+1, numstep+1)\<close>, from step \<open>N\<close> on. The result
  carries the number of the last step that was completed.
\<close>

function time_loop ::
  "'m externals \<Rightarrow> Flow0DProblem \<Rightarrow> int \<Rightarrow> 'm flow0d_state \<Rightarrow> error + (int \<times> 'm flow0d_state)" where
  "time_loop M pb N st =
     (if N < numstep (base pb) + 1 then
        (case time_step M pb N st of
           Inl e \<Rightarrow> Inl e
         | Inr (st', brk) \<Rightarrow> if brk then Inr (N, st') else time_loop M pb (N + 1) st')
      else Inr (N - 1, st))"
  by pat_completeness auto
termination
  by (relation "measure (\<lambda>(M, pb, N, st). nat (numstep (base pb) + 1 - N))") auto

declare time_loop.simps [simp del]

text \<open>\<^verbatim>\<open>solve_problem\<close>: the restart, the evaluation of the old state, the loop.\<close>

definition solve_problem ::
  "'m externals \<Rightarrow> Flow0DProblem \<Rightarrow> 'm flow0d_state \<Rightarrow> error + (int \<times> 'm flow0d_state)" where
  "solve_problem M pb st =
     (let st1 = (if restart_step (base pb) > 0
                 then (readrestart M pb (st_simname st) (restart_step (base pb)) st)
                        \<lparr>st_simname := st_simname st @ ''_r'' @ py_str M (restart_step (base pb))\<rparr>
                 else st);
          c1 = (case ti_timecurves1 M of
                  None \<Rightarrow> st_c st1
                | Some tc \<Rightarrow> st_c st1 @ [tc (st_t_init st1)]);
          ev = cv_evaluate M (st_model st1) (st_s_old st1) (dt (base pb)) (st_t_init st1) c1;
          st2 = st1\<lparr>st_c := c1, st_df_old := fst ev, st_f_old := fst (snd ev),
                    st_aux_old := snd (snd ev)\<rparr>
      in time_loop M pb (restart_step (base pb) + 1) st2)"

text \<open>
  The fields that carry the computation from one step to the next: everything but the
  midpoint vectors and the record of the output.
\<close>

definition advanced :: "'m flow0d_state \<Rightarrow> 'm flow0d_state" where
  "advanced st = st\<lparr>st_s_mid := [], st_aux_mid := [], st_out := []\<rparr>"

subsection \<open>The methods of the model object that the specification describes\<close>

text \<open>
  The state of a model object: the cycle length, the weight \<open>theta\<close> of the time
  integration it was constructed with, the parameter set, and the flag that records
  an induced perturbation.
\<close>

record 'p model_state =
  ms_T_cycl :: real
  ms_theta :: real
  ms_params :: 'p
  ms_have_induced_pert :: bool

text \<open>
  Modelled from the spec: \<^verbatim>\<open>midpoint_avg\<close> of the model base class is missing
  from the sources. The specification: midpoint (reporting) values are computed as
  \<open>\<theta> S_new + (1 - \<theta>) S_old\<close>.
\<close>

definition midpoint_avg :: "'p model_state \<Rightarrow> vec \<Rightarrow> vec \<Rightarrow> vec" where
  "midpoint_avg m v v_old = map2 (\<lambda>x y. ms_theta m * x + (1 - ms_theta m) * y) v v_old"

text \<open>
  Modelled from the spec: \<^verbatim>\<open>cycle_check\<close> of the model base class is missing from
  the sources. The specification: it maintains the cycle counter and detects a cycle
  boundary whenever simulated time crosses a multiple of the cycle length; the counter
  is incremented once per detected boundary, by exactly 1 per completed cardiac cycle;
  at a boundary the state is compared with the snapshot of the previous cycle by a
  relative error norm, the run is declared periodic when this error falls below the
  tolerance, and the snapshot is overwritten. The loop passes the time \<open>t\<close> since the
  start of the current cycle, so the multiples crossed are the \<open>\<lfloor>t / T\<rfloor>\<close> cycle lengths
  that fit into it. Reaching a steady state and applying a disturbance are two
  sequential phases of one run: the argument \<^verbatim>\<open>induce_pert_after_cycl\<close> of the call
  is the trigger cycle of the perturbation, and a boundary that ends a cycle up to the
  trigger cycle does not declare the run periodic. The error norm \<open>err\<close> (max or sum,
  by check type) is a parameter. The time is a real number, where the source passes a
  floating-point difference.
\<close>

definition cycle_check ::
  "(checktype \<Rightarrow> vec \<Rightarrow> vec \<Rightarrow> real) \<Rightarrow> 'p model_state \<Rightarrow> cycle_check_args \<Rightarrow> cycle_check_result" where
  "cycle_check err m a =
     (if ms_T_cycl m > 0 \<and> cc_t a \<ge> ms_T_cycl m then
        \<lparr>ccr_is_periodic = (err (cc_check a) (cc_s a) (cc_sTc_old a) < cc_eps_periodic a \<and>
                            cc_induce_pert_after_cycl a < cc_cycle a),
         ccr_sTc = cc_s a, ccr_sTc_old = cc_s a,
         ccr_cycle = cc_cycle a + \<lfloor>cc_t a / ms_T_cycl m\<rfloor>,
         ccr_cycleerror = err (cc_check a) (cc_s a) (cc_sTc_old a)\<rparr>
      else
        \<lparr>ccr_is_periodic = False, ccr_sTc = cc_sTc a, ccr_sTc_old = cc_sTc_old a,
         ccr_cycle = cc_cycle a, ccr_cycleerror = cc_cycleerror a\<rparr>)"

text \<open>
  Modelled from the spec: \<^verbatim>\<open>induce_perturbation\<close> of the model base class is
  missing from the sources. The specification: a configured perturbation (a
  replacement of the parameter set) is applied exactly once, at the first cycle
  boundary at or after the trigger cycle; re-application is explicitly suppressed
  thereafter. The injector is given the cycle counter as the cycle check has left it
  and the trigger cycle, not the time: a boundary has been crossed when the counter
  exceeds its start value 1, and the trigger cycle has ended when the counter exceeds
  it. \<open>perturb\<close> is the replacement of the parameter set for a perturbation type.
\<close>

definition induce_perturbation ::
  "(string \<Rightarrow> 'p \<Rightarrow> 'p) \<Rightarrow> 'p model_state \<Rightarrow> string \<Rightarrow> int \<Rightarrow> int \<Rightarrow> 'p model_state" where
  "induce_perturbation perturb m ptype ct perturb_after =
     (if ct > perturb_after \<and> ct > 1 \<and> \<not> ms_have_induced_pert m
      then m\<lparr>ms_params := perturb ptype (ms_params m), ms_have_induced_pert := True\<rparr>
      else m)"


subsection \<open>A small run\<close>

text \<open>
  A problem object, collaborators and a start state on which the loop can be run by
  hand: step size \<open>0.5\<close>, five steps, cycle length 1, \<open>theta = 0.5\<close>, a perturbation
  configured with trigger cycle 1. The parameter set of the model is a natural number
  and the perturbation is the successor, so that the parameter set counts the
  applications. The Newton solve adds 1 to every entry of the solution.
\<close>

definition example_problem :: Flow0DProblem where
  "example_problem =
     \<lparr>base = \<lparr>dt = 1 / 2, numstep = 5, restart_step = 0, t_init = 0\<rparr>,
      problem_physics = ''flow0d'', simname = ''run'',
      write_results_every_0D = 2, write_restart_every = - 1,
      output_path_0D = ''tmp'', cq = ''volume'', eps_periodic = 1 / 10 ^ 20,
      periodic_checktype = CheckStr ''allvar'', prescribed_variables = PDict [],
      perturb_type = Some ''mr'', perturb_after_cylce = 1,
      cardvasc0D = cardiovascular0Dsyspul
        \<lparr>cl_theta = 1 / 2, cl_params = PDict [], cl_chmodels = PDict [], cl_chinterf = PDict [],
         cl_prescrpath = None, cl_have_elast = False, cl_cq = ''volume'',
         cl_valvelaw = ''pwlin_pres''\<rparr>,
      initialconditions = PDict [], theta_ost = 1 / 2\<rparr>"

definition example_externals :: "nat model_state externals" where
  "example_externals =
     \<lparr>cv_T_cycl = ms_T_cycl,
      cv_evaluate = (\<lambda>m v h t c. (v, v, v)),
      cv_midpoint_avg = midpoint_avg,
      cv_update = (\<lambda>m new old. new),
      cv_cycle_check = cycle_check (\<lambda>chk v w. 1),
      cv_induce_perturbation = induce_perturbation (\<lambda>ptype p. Suc p),
      cv_read_restart = (\<lambda>path name rst. []),
      loadtxt_cycledata = (\<lambda>file. (1, 0)),
      py_str = (\<lambda>n. ''''),
      ti_timecurves1 = None,
      solnln_newton = (\<lambda>m a. Inr (map (\<lambda>x. x + 1) (na_s a), [], [], [])),
      pbs_numstep_stop = None\<rparr>"

definition example_state :: "nat model_state flow0d_state" where
  "example_state =
     \<lparr>st_s = [0], st_s_old = [0], st_s_mid = [7], st_aux = [], st_aux_old = [], st_aux_mid = [],
      st_df = [], st_df_old = [], st_f = [], st_f_old = [], st_sTc = [], st_sTc_old = [0],
      st_c = [], st_cycle = 1, st_cycleerror = 0,
      st_model = \<lparr>ms_T_cycl = 1, ms_theta = 1 / 2, ms_params = 0, ms_have_induced_pert = False\<rparr>,
      st_simname = ''run'', st_t_init = 0, st_out = []\<rparr>"




section \<open>Properties of the ODE Newton solver\<close>

lemma newton_iterate_one: "newton_iterate pb t (Suc 0) sr = newton_update pb t sr"
  by simp

lemma newton_iterate_shift:
  "newton_iterate pb t (Suc (Suc k)) sr =
     newton_iterate pb t (Suc k) (fst (newton_update pb t sr), fst (snd (newton_update pb t sr)))"
proof (induction k)
  case 0
  show ?case by (simp add: split_beta)
next
  case (Suc k)
  show ?case
    using Suc.IH by (simp only: newton_iterate.simps(2) [of pb t "Suc (Suc k)"] newton_iterate.simps(2) [of pb t "Suc k"])
qed

lemma newton_loop_fail:
  "(\<forall>j. it + int j < maxiter sol \<longrightarrow> \<not> conv_of sol (newton_iterate pb t (Suc j) sr)) \<Longrightarrow>
   newton_loop pb sol t it sr n =
     Inl (RuntimeError ''Newton for ODE system did not converge after %i iterations!'' (max it (maxiter sol)))"
proof (induction pb sol t it sr n rule: newton_loop.induct)
  case (1 pb sol t it sr n)
  show ?case
  proof (cases "it < maxiter sol")
    case False
    then show ?thesis by (simp add: newton_loop.simps [of pb sol t it sr n] max_def)
  next
    case True
    obtain s' r' ds where u: "newton_update pb t sr = (s', r', ds)"
      by (cases "newton_update pb t sr") auto
    from "1.prems" [rule_format, of 0] True u
    have nc: "\<not> check_converged (vec_norm r') (vec_norm ds) (tolres sol) (tolinc sol)"
      by (simp add: conv_of_def)
    have step: "\<forall>j. it + 1 + int j < maxiter sol \<longrightarrow>
        \<not> conv_of sol (newton_iterate pb t (Suc j) (s', r'))"
    proof (intro allI impI)
      fix j
      assume "it + 1 + int j < maxiter sol"
      then have "it + int (Suc j) < maxiter sol" by simp
      from "1.prems" [rule_format, OF this]
      show "\<not> conv_of sol (newton_iterate pb t (Suc j) (s', r'))"
        by (simp add: newton_iterate_shift u del: newton_iterate.simps)
    qed
    have "newton_loop pb sol t (it + 1) (s', r') (Suc n) =
       Inl (RuntimeError ''Newton for ODE system did not converge after %i iterations!'' (max (it + 1) (maxiter sol)))"
      using "1.IH" [OF True u [symmetric] refl nc step] .
    with True u nc show ?thesis
      by (simp add: newton_loop.simps [of pb sol t it sr n] max_def)
  qed
qed


lemma newton_loop_success:
  "it + int j < maxiter sol \<Longrightarrow> conv_of sol (newton_iterate pb t (Suc j) sr) \<Longrightarrow>
   (\<forall>i<j. \<not> conv_of sol (newton_iterate pb t (Suc i) sr)) \<Longrightarrow>
   newton_loop pb sol t it sr n =
     Inr \<lparr>nr_s = fst (newton_iterate pb t (Suc j) sr), nr_ni = it + int j,
          nr_resnorm = vec_norm (fst (snd (newton_iterate pb t (Suc j) sr))),
          nr_incnorm = vec_norm (snd (snd (newton_iterate pb t (Suc j) sr))),
          nr_jac_evals = n + Suc j, nr_lin_solves = n + Suc j\<rparr>"
proof (induction j arbitrary: it sr n)
  case 0
  obtain s' r' ds where u: "newton_update pb t sr = (s', r', ds)"
    by (cases "newton_update pb t sr") auto
  from 0 u show ?case
    by (simp add: newton_loop.simps [of pb sol t it sr n] conv_of_def)
next
  case (Suc j)
  obtain s' r' ds where u: "newton_update pb t sr = (s', r', ds)"
    by (cases "newton_update pb t sr") auto
  from Suc.prems(3) [rule_format, of 0] u
  have nc: "\<not> check_converged (vec_norm r') (vec_norm ds) (tolres sol) (tolinc sol)"
    by (simp add: conv_of_def)
  have a: "it + 1 + int j < maxiter sol" using Suc.prems(1) by simp
  have b: "conv_of sol (newton_iterate pb t (Suc j) (s', r'))"
    using Suc.prems(2) by (simp add: newton_iterate_shift u del: newton_iterate.simps)
  have c: "\<forall>i<j. \<not> conv_of sol (newton_iterate pb t (Suc i) (s', r'))"
  proof (intro allI impI)
    fix i assume "i < j"
    then have "Suc i < Suc j" by simp
    from Suc.prems(3) [rule_format, OF this]
    show "\<not> conv_of sol (newton_iterate pb t (Suc i) (s', r'))"
      by (simp add: newton_iterate_shift u del: newton_iterate.simps)
  qed
  have lt: "it < maxiter sol" using Suc.prems(1) by simp
  have "newton_loop pb sol t it sr n = newton_loop pb sol t (it + 1) (s', r') (Suc n)"
    using lt u nc by (simp add: newton_loop.simps [of pb sol t it sr n])
  also have "\<dots> = Inr \<lparr>nr_s = fst (newton_iterate pb t (Suc j) (s', r')), nr_ni = it + 1 + int j,
          nr_resnorm = vec_norm (fst (snd (newton_iterate pb t (Suc j) (s', r')))),
          nr_incnorm = vec_norm (snd (snd (newton_iterate pb t (Suc j) (s', r')))),
          nr_jac_evals = Suc n + Suc j, nr_lin_solves = Suc n + Suc j\<rparr>"
    by (rule Suc.IH [OF a b c])
  finally show ?case
    by (simp add: newton_iterate_shift [of pb t j sr] u del: newton_iterate.simps)
qed

lemma conv_of_converged_at:
  "converged_at pb sol t s k = conv_of sol (newton_iterate pb t k (s, assemble_residual pb s t))"
  by (simp add: converged_at_def conv_of_def split_beta)

lemma newton_fail_iff:
  "(\<exists>e. newton pb sol t s = Inl e) \<longleftrightarrow>
   (\<forall>k. 1 \<le> k \<and> int k < maxiter sol \<longrightarrow> \<not> converged_at pb sol t s k)"
proof
  assume r: "\<forall>k. 1 \<le> k \<and> int k < maxiter sol \<longrightarrow> \<not> converged_at pb sol t s k"
  have "\<forall>j. 1 + int j < maxiter sol \<longrightarrow>
     \<not> conv_of sol (newton_iterate pb t (Suc j) (s, assemble_residual pb s t))"
  proof (intro allI impI)
    fix j assume "1 + int j < maxiter sol"
    then have "1 \<le> Suc j \<and> int (Suc j) < maxiter sol" by simp
    from r [rule_format, OF this]
    show "\<not> conv_of sol (newton_iterate pb t (Suc j) (s, assemble_residual pb s t))"
      by (simp add: conv_of_converged_at del: newton_iterate.simps)
  qed
  from newton_loop_fail [OF this]
  show "\<exists>e. newton pb sol t s = Inl e" by (simp add: newton_def)
next
  assume l: "\<exists>e. newton pb sol t s = Inl e"
  show "\<forall>k. 1 \<le> k \<and> int k < maxiter sol \<longrightarrow> \<not> converged_at pb sol t s k"
  proof (rule ccontr)
    assume "\<not> ?thesis"
    then obtain k where k: "1 \<le> k" "int k < maxiter sol" "converged_at pb sol t s k" by blast
    define P where "P = (\<lambda>j. conv_of sol (newton_iterate pb t (Suc j) (s, assemble_residual pb s t)))"
    from k(1) have "Suc (k - 1) = k" by simp
    with k(3) have "P (k - 1)" by (simp add: P_def conv_of_converged_at del: newton_iterate.simps)
    then have ex: "\<exists>j. P j" ..
    define j where "j = (LEAST j. P j)"
    have Pj: "P j" unfolding j_def using ex by (rule LeastI_ex)
    have jle: "j \<le> k - 1" unfolding j_def using \<open>P (k - 1)\<close> by (rule Least_le)
    have nP: "\<forall>i<j. \<not> P i" unfolding j_def using not_less_Least by blast
    have "1 + int j < maxiter sol" using jle k by linarith
    from newton_loop_success [OF this Pj [unfolded P_def] nP [unfolded P_def], of 0]
    have "\<exists>res. newton pb sol t s = Inr res" by (simp add: newton_def)
    with l show False by auto
  qed
qed

lemma newton_error_value:
  "newton pb sol t s = Inl e \<Longrightarrow>
   e = RuntimeError ''Newton for ODE system did not converge after %i iterations!'' (max 1 (maxiter sol))"
proof -
  assume a: "newton pb sol t s = Inl e"
  then have "\<exists>e. newton pb sol t s = Inl e" ..
  then have r: "\<forall>k. 1 \<le> k \<and> int k < maxiter sol \<longrightarrow> \<not> converged_at pb sol t s k"
    by (simp only: newton_fail_iff)
  have "\<forall>j. 1 + int j < maxiter sol \<longrightarrow>
     \<not> conv_of sol (newton_iterate pb t (Suc j) (s, assemble_residual pb s t))"
  proof (intro allI impI)
    fix j assume "1 + int j < maxiter sol"
    then have "1 \<le> Suc j \<and> int (Suc j) < maxiter sol" by simp
    from r [rule_format, OF this]
    show "\<not> conv_of sol (newton_iterate pb t (Suc j) (s, assemble_residual pb s t))"
      by (simp add: conv_of_converged_at del: newton_iterate.simps)
  qed
  from newton_loop_fail [OF this, of 0] a
  show ?thesis by (simp add: newton_def)
qed

lemma solver_init_PTC:
  "solver_nonlinear_ode_init chk p = Inr sol \<Longrightarrow> \<not> PTC sol \<and> solvetype sol = ''direct''"
  by (auto simp: solver_nonlinear_ode_init_def Let_def split: option.splits)

text \<open>
  Claim C1. The ODE Newton solver fails exactly when none of the checks made after the
  undamped full Newton steps \<open>1, \<dots>, maxiter - 1\<close> finds both norms within tolerance; it then
  raises the \<^verbatim>\<open>RuntimeError\<close> that reports the iteration count \<open>max 1 maxiter\<close>, and it
  raises no other error. The iterates tested are those of the plain Newton sequence
  (\<open>newton_iterate\<close>: one Jacobian, one direct solve, one full step each), and a solver
  built by the constructor has pseudo-transient continuation switched off. In the time
  loop an error of the Newton solve of a step is the result of the step and of the
  run: the loop makes one solve per step, with the configured step size, and has no
  handler around it.
\<close>

theorem newton_ode_fails_fatally:
  "((\<forall>k. 1 \<le> k \<and> int k < maxiter sol \<longrightarrow> \<not> converged_at pb sol t s k) \<longleftrightarrow>
      newton pb sol t s =
        Inl (RuntimeError ''Newton for ODE system did not converge after %i iterations!''
              (max 1 (maxiter sol)))) \<and>
   (\<forall>e. newton pb sol t s = Inl e \<longrightarrow>
      e = RuntimeError ''Newton for ODE system did not converge after %i iterations!''
            (max 1 (maxiter sol))) \<and>
   (\<forall>chk p. solver_nonlinear_ode_init chk p = Inr sol \<longrightarrow> \<not> PTC sol \<and> solvetype sol = ''direct'') \<and>
   (\<forall>(M :: 'x externals) fp N st e.
      N \<le> numstep (base fp) \<and> solnln_newton M (st_model st) (newton_call M fp N st) = Inl e \<longrightarrow>
      time_step M fp N st = Inl e \<and> time_loop M fp N st = Inl e)"
proof (intro conjI allI impI)
  show "(\<forall>k. 1 \<le> k \<and> int k < maxiter sol \<longrightarrow> \<not> converged_at pb sol t s k) \<longleftrightarrow>
      newton pb sol t s =
        Inl (RuntimeError ''Newton for ODE system did not converge after %i iterations!''
              (max 1 (maxiter sol)))"
    using newton_fail_iff [of pb sol t s] newton_error_value [of pb sol t s] by blast
next
  fix e assume "newton pb sol t s = Inl e"
  then show "e = RuntimeError ''Newton for ODE system did not converge after %i iterations!''
            (max 1 (maxiter sol))" by (rule newton_error_value)
next
  fix chk p assume "solver_nonlinear_ode_init chk p = Inr sol"
  then show "\<not> PTC sol" by (simp add: solver_init_PTC)
next
  fix chk p assume "solver_nonlinear_ode_init chk p = Inr sol"
  then show "solvetype sol = ''direct''" by (simp add: solver_init_PTC)
next
  fix M :: "'x externals" and fp N st e
  assume "N \<le> numstep (base fp) \<and> solnln_newton M (st_model st) (newton_call M fp N st) = Inl e"
  then show "time_step M fp N st = Inl e" by (simp add: time_step_def Let_def)
next
  fix M :: "'x externals" and fp N st e
  assume "N \<le> numstep (base fp) \<and> solnln_newton M (st_model st) (newton_call M fp N st) = Inl e"
  then show "time_loop M fp N st = Inl e"
    by (simp add: time_loop.simps [of M fp N st] time_step_def Let_def)
qed

lemma vec_norm_single: "vec_norm [x] = \<bar>x\<bar>"
  by (simp add: vec_norm_def)

text \<open>
  A run of C1: the residual is constantly \<open>[1]\<close>, so neither of the two checks that
  \<open>maxiter = 3\<close> allows succeeds.
\<close>

theorem newton_ode_fails_fatally_witness:
  "newton \<lparr>assemble_residual = (\<lambda>s t. [1]), assemble_stiffness = (\<lambda>s t. ()), ksp_solve = (\<lambda>K b. b)\<rparr>
      \<lparr>maxiter = 3, direct_solver = ''mumps'', tolres = 1 / 10 ^ 8, tolinc = 1 / 10 ^ 8,
        PTC = False, solvetype = ''direct''\<rparr> 0 [0] =
     Inl (RuntimeError ''Newton for ODE system did not converge after %i iterations!'' 3)"
proof -
  let ?pb = "\<lparr>assemble_residual = (\<lambda>s t. [1::real]), assemble_stiffness = (\<lambda>s t. ()), ksp_solve = (\<lambda>K b. b)\<rparr>"
  let ?sol = "\<lparr>maxiter = 3, direct_solver = ''mumps'', tolres = 1 / 10 ^ 8, tolinc = 1 / 10 ^ 8,
        PTC = False, solvetype = ''direct''\<rparr>"
  have "\<forall>k. 1 \<le> k \<and> int k < maxiter ?sol \<longrightarrow> \<not> converged_at ?pb ?sol 0 [0] k"
  proof (intro allI impI)
    fix k :: nat assume "1 \<le> k \<and> int k < maxiter ?sol"
    then have "k = 1 \<or> k = 2" by auto
    then show "\<not> converged_at ?pb ?sol 0 [0] k"
      by (auto simp: converged_at_def newton_update_def Let_def check_converged_def
            vec_norm_single vec_neg_def axpy_def numeral_2_eq_2)
  qed
  with newton_ode_fails_fatally [of ?sol ?pb 0 "[0]", THEN conjunct1]
  show ?thesis by simp
qed

lemma newton_success_iff:
  "newton pb sol t s = Inr res \<longleftrightarrow>
   (\<exists>k. 1 \<le> k \<and> int k < maxiter sol \<and> converged_at pb sol t s k \<and>
        (\<forall>i. 1 \<le> i \<and> i < k \<longrightarrow> \<not> converged_at pb sol t s i) \<and>
        res = \<lparr>nr_s = fst (newton_iterate pb t k (s, assemble_residual pb s t)), nr_ni = int k,
          nr_resnorm = vec_norm (fst (snd (newton_iterate pb t k (s, assemble_residual pb s t)))),
          nr_incnorm = vec_norm (snd (snd (newton_iterate pb t k (s, assemble_residual pb s t)))),
          nr_jac_evals = k, nr_lin_solves = k\<rparr>)"
  (is "?L \<longleftrightarrow> ?R")
proof -
  let ?sr = "(s, assemble_residual pb s t)"
  have succ: "newton pb sol t s = Inr \<lparr>nr_s = fst (newton_iterate pb t k ?sr), nr_ni = int k,
          nr_resnorm = vec_norm (fst (snd (newton_iterate pb t k ?sr))),
          nr_incnorm = vec_norm (snd (snd (newton_iterate pb t k ?sr))),
          nr_jac_evals = k, nr_lin_solves = k\<rparr>"
    if k: "1 \<le> k" "int k < maxiter sol" "converged_at pb sol t s k"
       "\<forall>i. 1 \<le> i \<and> i < k \<longrightarrow> \<not> converged_at pb sol t s i" for k
  proof -
    obtain j where j: "k = Suc j" using k(1) by (cases k) auto
    have a: "1 + int j < maxiter sol" using k(2) j by simp
    have b: "conv_of sol (newton_iterate pb t (Suc j) ?sr)"
      using k(3) j by (simp add: conv_of_converged_at del: newton_iterate.simps)
    have c: "\<forall>i<j. \<not> conv_of sol (newton_iterate pb t (Suc i) ?sr)"
    proof (intro allI impI)
      fix i assume "i < j"
      then have "1 \<le> Suc i \<and> Suc i < k" using j by simp
      from k(4) [rule_format, OF this]
      show "\<not> conv_of sol (newton_iterate pb t (Suc i) ?sr)"
        by (simp add: conv_of_converged_at del: newton_iterate.simps)
    qed
    from newton_loop_success [OF a b c, of 0] show ?thesis
      by (simp add: newton_def j del: newton_iterate.simps)
  qed
  show ?thesis
  proof
    assume ?R
    then obtain k where k: "1 \<le> k" "int k < maxiter sol" "converged_at pb sol t s k"
       "\<forall>i. 1 \<le> i \<and> i < k \<longrightarrow> \<not> converged_at pb sol t s i"
       and res: "res = \<lparr>nr_s = fst (newton_iterate pb t k ?sr), nr_ni = int k,
          nr_resnorm = vec_norm (fst (snd (newton_iterate pb t k ?sr))),
          nr_incnorm = vec_norm (snd (snd (newton_iterate pb t k ?sr))),
          nr_jac_evals = k, nr_lin_solves = k\<rparr>" by blast
    from succ [OF k] res show ?L by simp
  next
    assume L: ?L
    then have "\<not> (\<exists>e. newton pb sol t s = Inl e)" by simp
    then have "\<exists>k. 1 \<le> k \<and> int k < maxiter sol \<and> converged_at pb sol t s k"
      by (simp only: newton_fail_iff) blast
    then obtain k0 where k0: "(\<lambda>k. 1 \<le> k \<and> int k < maxiter sol \<and> converged_at pb sol t s k) k0" ..
    define k where "k = (LEAST k. 1 \<le> k \<and> int k < maxiter sol \<and> converged_at pb sol t s k)"
    have Pk: "1 \<le> k \<and> int k < maxiter sol \<and> converged_at pb sol t s k"
      unfolding k_def using k0 by (rule LeastI)
    have kle: "k \<le> k0" unfolding k_def using k0 by (rule Least_le)
    have min: "\<forall>i. 1 \<le> i \<and> i < k \<longrightarrow> \<not> converged_at pb sol t s i"
    proof (intro allI impI)
      fix i assume i: "1 \<le> i \<and> i < k"
      with Pk have "int i < maxiter sol" by linarith
      moreover have "\<not> (1 \<le> i \<and> int i < maxiter sol \<and> converged_at pb sol t s i)"
        using i not_less_Least [of i "\<lambda>k. 1 \<le> k \<and> int k < maxiter sol \<and> converged_at pb sol t s k"]
        by (simp add: k_def)
      ultimately show "\<not> converged_at pb sol t s i" using i by simp
    qed
    from Pk min have k: "1 \<le> k" "int k < maxiter sol" "converged_at pb sol t s k"
       "\<forall>i. 1 \<le> i \<and> i < k \<longrightarrow> \<not> converged_at pb sol t s i" by simp_all
    from succ [OF k] L
    have "res = \<lparr>nr_s = fst (newton_iterate pb t k ?sr), nr_ni = int k,
          nr_resnorm = vec_norm (fst (snd (newton_iterate pb t k ?sr))),
          nr_incnorm = vec_norm (snd (snd (newton_iterate pb t k ?sr))),
          nr_jac_evals = k, nr_lin_solves = k\<rparr>" by simp
    with k show ?R by blast
  qed
qed

text \<open>
  Claim C2, as amended. A call that returns has passed the convergence test (both norms
  under their tolerances) at the first iteration \<open>k \<ge> 1\<close> at which the test holds, the
  test being made after each linear solve and update; it has assembled the Jacobian
  and solved the linear system \<open>k \<ge> 1\<close> times. No test is made at iteration 0.
\<close>

theorem newton_ode_checks_after_each_solve:
  assumes "newton pb sol t s = Inr res"
  shows "check_converged (nr_resnorm res) (nr_incnorm res) (tolres sol) (tolinc sol) \<and>
         1 \<le> nr_jac_evals res \<and> 1 \<le> nr_lin_solves res \<and>
         nr_ni res = int (nr_lin_solves res) \<and>
         (\<exists>k. 1 \<le> k \<and> int k < maxiter sol \<and> converged_at pb sol t s k \<and>
              (\<forall>i. 1 \<le> i \<and> i < k \<longrightarrow> \<not> converged_at pb sol t s i) \<and>
              nr_lin_solves res = k \<and> nr_jac_evals res = k \<and>
              nr_s res = fst (newton_iterate pb t k (s, assemble_residual pb s t)))"
proof -
  from assms obtain k where k: "1 \<le> k" "int k < maxiter sol" "converged_at pb sol t s k"
       "\<forall>i. 1 \<le> i \<and> i < k \<longrightarrow> \<not> converged_at pb sol t s i"
       and res: "res = \<lparr>nr_s = fst (newton_iterate pb t k (s, assemble_residual pb s t)), nr_ni = int k,
          nr_resnorm = vec_norm (fst (snd (newton_iterate pb t k (s, assemble_residual pb s t)))),
          nr_incnorm = vec_norm (snd (snd (newton_iterate pb t k (s, assemble_residual pb s t)))),
          nr_jac_evals = k, nr_lin_solves = k\<rparr>"
    unfolding newton_success_iff by blast
  have cc: "check_converged (nr_resnorm res) (nr_incnorm res) (tolres sol) (tolinc sol)"
    using k(3) by (simp add: res converged_at_def split_beta)
  from k res cc show ?thesis by auto
qed

lemma newton_converged_start:
  "newton \<lparr>assemble_residual = (\<lambda>s t. s), assemble_stiffness = (\<lambda>s t. ()), ksp_solve = (\<lambda>K b. b)\<rparr>
      \<lparr>maxiter = 25, direct_solver = ''mumps'', tolres = 1 / 10 ^ 8, tolinc = 1 / 10 ^ 8,
        PTC = False, solvetype = ''direct''\<rparr> 0 [0] =
     Inr \<lparr>nr_s = [0], nr_ni = 1, nr_resnorm = 0, nr_incnorm = 0, nr_jac_evals = 1, nr_lin_solves = 1\<rparr>"
  by (simp add: newton_def newton_loop.simps newton_update_def Let_def check_converged_def
        vec_norm_single vec_neg_def axpy_def)

text \<open>
  Claim C2 as stated fails: the start \<open>[0]\<close> of the problem with residual \<open>F(s) = s\<close>
  has residual norm 0, and the solver still assembles one Jacobian and performs one
  linear solve before it returns.
\<close>

theorem newton_ode_no_check_at_iteration_0:
  "vec_norm (assemble_residual
       \<lparr>assemble_residual = (\<lambda>s t. s), assemble_stiffness = (\<lambda>s t. ()), ksp_solve = (\<lambda>K b. b)\<rparr> [0] 0)
     < 1 / 10 ^ 8 \<and>
   newton \<lparr>assemble_residual = (\<lambda>s t. s), assemble_stiffness = (\<lambda>s t. ()), ksp_solve = (\<lambda>K b. b)\<rparr>
      \<lparr>maxiter = 25, direct_solver = ''mumps'', tolres = 1 / 10 ^ 8, tolinc = 1 / 10 ^ 8,
        PTC = False, solvetype = ''direct''\<rparr> 0 [0] =
     Inr \<lparr>nr_s = [0], nr_ni = 1, nr_resnorm = 0, nr_incnorm = 0, nr_jac_evals = 1, nr_lin_solves = 1\<rparr>"
  using newton_converged_start by (simp add: vec_norm_single)

text \<open>The amended C2 at the same start.\<close>

theorem newton_ode_checks_after_each_solve_witness:
  "check_converged 0 0 (1 / 10 ^ 8) (1 / 10 ^ 8) \<and> (1::nat) \<le> 1 \<and>
   (\<exists>k. 1 \<le> k \<and> int k < 25 \<and>
      converged_at \<lparr>assemble_residual = (\<lambda>s t. s), assemble_stiffness = (\<lambda>s t. ()), ksp_solve = (\<lambda>K b. b)\<rparr>
      \<lparr>maxiter = 25, direct_solver = ''mumps'', tolres = 1 / 10 ^ 8, tolinc = 1 / 10 ^ 8,
        PTC = False, solvetype = ''direct''\<rparr> 0 [0] k \<and> 1 = k)"
  using newton_ode_checks_after_each_solve [OF newton_converged_start] by simp

section \<open>Properties of the solver constructor\<close>

text \<open>
  Claim C5 as stated fails: a parameter record without \<^verbatim>\<open>tol_res\<close> does not
  construct a solver with tolerance \<open>1e-8\<close>; the constructor raises \<^verbatim>\<open>KeyError\<close>.
\<close>

theorem solver_ode_init_missing_tolerance:
  "solver_nonlinear_ode_init (\<lambda>p. None)
     \<lparr>sp_maxiter = None, sp_direct_solver = None, sp_tol_res = None, sp_tol_inc = Some (1 / 10 ^ 8)\<rparr>
   = Inl (KeyError ''tol_res'')"
  by (simp add: solver_nonlinear_ode_init_def)

text \<open>
  Claim C5, as amended. When the parameter check passes, a record that omits the
  residual tolerance makes the constructor fail with \<^verbatim>\<open>KeyError('tol_res')\<close>, one
  that has it and omits the increment tolerance with \<^verbatim>\<open>KeyError('tol_inc')\<close>, and
  one that has both yields a solver with exactly these tolerances; only
  \<^verbatim>\<open>maxiter\<close> (25) and \<^verbatim>\<open>direct_solver\<close> ('mumps') have defaults.
\<close>

theorem solver_ode_init_tolerances:
  assumes "check_params_solver p = None"
  shows "(sp_tol_res p = None \<longrightarrow>
            solver_nonlinear_ode_init check_params_solver p = Inl (KeyError ''tol_res'')) \<and>
         (sp_tol_res p \<noteq> None \<and> sp_tol_inc p = None \<longrightarrow>
            solver_nonlinear_ode_init check_params_solver p = Inl (KeyError ''tol_inc'')) \<and>
         (\<forall>tr ti. sp_tol_res p = Some tr \<and> sp_tol_inc p = Some ti \<longrightarrow>
            solver_nonlinear_ode_init check_params_solver p =
              Inr \<lparr>maxiter = (case sp_maxiter p of Some m \<Rightarrow> m | None \<Rightarrow> 25),
                   direct_solver = (case sp_direct_solver p of Some d \<Rightarrow> d | None \<Rightarrow> ''mumps''),
                   tolres = tr, tolinc = ti, PTC = False, solvetype = ''direct''\<rparr>)"
  using assms by (auto simp: solver_nonlinear_ode_init_def Let_def split: option.splits)

text \<open>The amended C5 at two parameter records.\<close>

theorem solver_ode_init_tolerances_witness:
  "solver_nonlinear_ode_init (\<lambda>p. None)
     \<lparr>sp_maxiter = Some 10, sp_direct_solver = None, sp_tol_res = Some (1 / 10 ^ 6), sp_tol_inc = None\<rparr>
     = Inl (KeyError ''tol_inc'') \<and>
   solver_nonlinear_ode_init (\<lambda>p. None)
     \<lparr>sp_maxiter = None, sp_direct_solver = None, sp_tol_res = Some (1 / 10 ^ 6), sp_tol_inc = Some (1 / 10 ^ 7)\<rparr>
     = Inr \<lparr>maxiter = 25, direct_solver = ''mumps'', tolres = 1 / 10 ^ 6, tolinc = 1 / 10 ^ 7,
            PTC = False, solvetype = ''direct''\<rparr>"
  using solver_ode_init_tolerances [of "\<lambda>p. None"
      "\<lparr>sp_maxiter = Some 10, sp_direct_solver = None, sp_tol_res = Some (1 / 10 ^ 6), sp_tol_inc = None\<rparr>"]
    solver_ode_init_tolerances [of "\<lambda>p. None"
      "\<lparr>sp_maxiter = None, sp_direct_solver = None, sp_tol_res = Some (1 / 10 ^ 6), sp_tol_inc = Some (1 / 10 ^ 7)\<rparr>"]
  by simp

section \<open>Properties of the activation curves\<close>

lemma py_fmod_period: "y \<noteq> 0 \<Longrightarrow> py_fmod (x + y) y = py_fmod x y"
proof -
  assume y: "y \<noteq> 0"
  then have "(x + y) / y = x / y + 1" by (simp add: add_divide_distrib)
  then have "\<lfloor>(x + y) / y\<rfloor> = \<lfloor>x / y\<rfloor> + 1" by simp
  then show ?thesis by (simp add: py_fmod_def algebra_simps)
qed

lemma py_fmod_range: "0 < y \<Longrightarrow> 0 \<le> py_fmod x y \<and> py_fmod x y < y"
proof -
  assume y: "0 < y"
  have a: "of_int \<lfloor>x / y\<rfloor> \<le> x / y" by (rule of_int_floor_le)
  have b: "x / y < of_int \<lfloor>x / y\<rfloor> + 1" by linarith
  have "of_int \<lfloor>x / y\<rfloor> * y \<le> x"
    using a y pos_le_divide_eq [of y "of_int \<lfloor>x / y\<rfloor>" x] by blast
  moreover have "x < (of_int \<lfloor>x / y\<rfloor> + 1) * y"
    using b y pos_divide_less_eq [of y x "of_int \<lfloor>x / y\<rfloor> + 1"] by blast
  ultimately show ?thesis by (simp add: py_fmod_def algebra_simps)
qed

lemma raised_cosine_bounds: "0 \<le> 0.5 * (1 - cos x) \<and> 0.5 * (1 - cos (x::real)) \<le> 1"
proof -
  have "cos x \<le> 1" "-1 \<le> cos x" by simp_all
  then show ?thesis by simp
qed

lemma tc1_bounds: "0 \<le> tc1 t \<and> tc1 t \<le> 1"
  using raised_cosine_bounds by (simp add: tc1_def Let_def)

lemma tc2_bounds: "0 \<le> tc2 t \<and> tc2 t \<le> 1"
  using raised_cosine_bounds by (simp add: tc2_def Let_def)

lemma tc1_period: "tc1 (t + param_T_cycl) = tc1 t"
  by (simp add: tc1_def py_fmod_period param_T_cycl_def)

lemma tc2_period: "tc2 (t + param_T_cycl) = tc2 t"
  by (simp add: tc2_def py_fmod_period param_T_cycl_def)

lemma pulse_outside:
  "d \<noteq> 0 \<Longrightarrow> \<not> (t0 \<le> x \<and> x < t0 + d) \<Longrightarrow>
   (if x \<ge> t0 \<and> x \<le> t0 + d then 0.5 * (1 - cos (2 * pi * (x - t0) / d)) else 0) = (0::real)"
proof -
  assume d: "d \<noteq> 0" and a: "\<not> (t0 \<le> x \<and> x < t0 + d)"
  show ?thesis
  proof (cases "x = t0 + d")
    case True
    then have "2 * pi * (x - t0) / d = 2 * pi" using d by simp
    then show ?thesis by simp
  next
    case False
    with a show ?thesis by auto
  qed
qed

lemma pulse_inside:
  "t0 \<le> x \<and> x < t0 + d \<Longrightarrow>
   (if x \<ge> t0 \<and> x \<le> t0 + d then 0.5 * (1 - cos (2 * pi * (x - t0) / d)) else 0)
     = 0.5 * (1 - cos (2 * pi * (x - t0) / (d::real)))"
  by simp

lemma tc1_unfold:
  "tc1 t = (if py_fmod t param_T_cycl \<ge> 0 \<and> py_fmod t param_T_cycl \<le> 0 + 2 * param_t_ed
            then 0.5 * (1 - cos (2 * pi * (py_fmod t param_T_cycl - 0) / (2 * param_t_ed))) else 0)"
  by (simp only: tc1_def Let_def)

lemma tc2_unfold:
  "tc2 t = (if py_fmod t param_T_cycl \<ge> param_t_ed \<and>
               py_fmod t param_T_cycl \<le> param_t_ed + 1.8 * (param_t_es - param_t_ed)
            then 0.5 * (1 - cos (2 * pi * (py_fmod t param_T_cycl - param_t_ed) /
                                  (1.8 * (param_t_es - param_t_ed)))) else 0)"
  by (simp only: tc2_def Let_def)

lemma act_dur1_nonzero: "2 * param_t_ed \<noteq> 0"
  by (simp add: param_t_ed_def param_T_cycl_def)

lemma act_dur2_nonzero: "1.8 * (param_t_es - param_t_ed) \<noteq> 0"
  by (simp add: param_t_es_def param_t_ed_def param_T_cycl_def)

lemma tc1_outside:
  "\<not> (0 \<le> py_fmod t param_T_cycl \<and> py_fmod t param_T_cycl < 0 + 2 * param_t_ed) \<Longrightarrow> tc1 t = 0"
  unfolding tc1_unfold by (rule pulse_outside [OF act_dur1_nonzero])

lemma tc1_inside:
  "0 \<le> py_fmod t param_T_cycl \<and> py_fmod t param_T_cycl < 0 + 2 * param_t_ed \<Longrightarrow>
   tc1 t = 0.5 * (1 - cos (2 * pi * (py_fmod t param_T_cycl - 0) / (2 * param_t_ed)))"
  unfolding tc1_unfold by (rule pulse_inside)

lemma tc2_outside:
  "\<not> (param_t_ed \<le> py_fmod t param_T_cycl \<and>
        py_fmod t param_T_cycl < param_t_ed + 1.8 * (param_t_es - param_t_ed)) \<Longrightarrow> tc2 t = 0"
  unfolding tc2_unfold by (rule pulse_outside [OF act_dur2_nonzero])

lemma tc2_inside:
  "param_t_ed \<le> py_fmod t param_T_cycl \<and>
        py_fmod t param_T_cycl < param_t_ed + 1.8 * (param_t_es - param_t_ed) \<Longrightarrow>
   tc2 t = 0.5 * (1 - cos (2 * pi * (py_fmod t param_T_cycl - param_t_ed) /
                                  (1.8 * (param_t_es - param_t_ed))))"
  unfolding tc2_unfold by (rule pulse_inside)

text \<open>
  Claim C8. With \<open>tmod = t mod T_cycl\<close>: each activation curve is 0 when \<open>tmod\<close> lies
  outside its window \<open>[onset, onset + duration)\<close>, equals
  \<open>0.5 (1 - cos (2 \<pi> (tmod - onset) / duration))\<close> when it lies inside, takes values in
  \<open>[0, 1]\<close> only, and has period \<open>T_cycl\<close>. The atrial curve \<open>tc1\<close> has onset 0 and
  duration \<open>2 t_ed\<close>, the ventricular curve \<open>tc2\<close> onset \<open>t_ed\<close> and duration
  \<open>1.8 (t_es - t_ed)\<close>. (The source tests \<open>tmod \<le> onset + duration\<close>; at the right end
  point the cosine formula gives 0, so the half-open window of the claim describes the
  same function.)
\<close>

theorem activation_curves_raised_cosine:
  "(\<not> (0 \<le> py_fmod t param_T_cycl \<and> py_fmod t param_T_cycl < 0 + 2 * param_t_ed) \<longrightarrow> tc1 t = 0) \<and>
   (0 \<le> py_fmod t param_T_cycl \<and> py_fmod t param_T_cycl < 0 + 2 * param_t_ed \<longrightarrow>
      tc1 t = 0.5 * (1 - cos (2 * pi * (py_fmod t param_T_cycl - 0) / (2 * param_t_ed)))) \<and>
   0 \<le> tc1 t \<and> tc1 t \<le> 1 \<and> tc1 (t + param_T_cycl) = tc1 t \<and>
   (\<not> (param_t_ed \<le> py_fmod t param_T_cycl \<and>
        py_fmod t param_T_cycl < param_t_ed + 1.8 * (param_t_es - param_t_ed)) \<longrightarrow> tc2 t = 0) \<and>
   (param_t_ed \<le> py_fmod t param_T_cycl \<and>
        py_fmod t param_T_cycl < param_t_ed + 1.8 * (param_t_es - param_t_ed) \<longrightarrow>
      tc2 t = 0.5 * (1 - cos (2 * pi * (py_fmod t param_T_cycl - param_t_ed) /
                                  (1.8 * (param_t_es - param_t_ed))))) \<and>
   0 \<le> tc2 t \<and> tc2 t \<le> 1 \<and> tc2 (t + param_T_cycl) = tc2 t"
  using tc1_outside [of t] tc1_inside [of t] tc1_bounds [of t] tc1_period [of t]
        tc2_outside [of t] tc2_inside [of t] tc2_bounds [of t] tc2_period [of t]
  by blast

text \<open>
  C8 at \<open>t = 0.04\<close> (inside the atrial window, before the ventricular one) and at
  \<open>t = 0.9988\<close> (third cycle, the peak of the ventricular curve, after the atrial window).
\<close>

theorem activation_curves_raised_cosine_witness:
  "tc1 (1 / 25) = 1 / 2 \<and> tc2 (1 / 25) = 0 \<and> tc2 (2497 / 2500) = 1 \<and> tc1 (2497 / 2500) = 0"
  using activation_curves_raised_cosine [of "1 / 25"]
        activation_curves_raised_cosine [of "2497 / 2500"]
  by (simp add: py_fmod_def param_t_ed_def param_t_es_def param_T_cycl_def)

section \<open>Properties of the constructor of the 0D flow problem\<close>

lemma initialize_0D_model_unknown:
  "mp_modeltype mp = Some tag \<Longrightarrow> tag \<notin> set recognized_modeltypes \<Longrightarrow>
   initialize_0D_model tp mp cm ci pp he cqv vl = Inl (NameError ''Unknown 0D modeltype!'')"
  by (simp add: initialize_0D_model_def getitem_def recognized_modeltypes_def Let_def)

lemma initialize_0D_model_known:
  assumes "mp_modeltype mp = Some tag" "tp_theta_ost tp = Some th" "mp_parameters mp = Some pa"
  shows "initialize_0D_model tp mp cm ci pp he cqv vl =
     (let cl = \<lparr>cl_theta = th, cl_params = pa, cl_chmodels = cm, cl_chinterf = ci,
                cl_prescrpath = pp, cl_have_elast = he, cl_cq = cqv, cl_valvelaw = vl\<rparr>
      in if tag = ''2elwindkessel'' then Inr (cardiovascular0D2elwindkessel th pa cqv)
         else if tag = ''4elwindkesselLsZ'' then Inr (cardiovascular0D4elwindkesselLsZ th pa cqv)
         else if tag = ''4elwindkesselLpZ'' then Inr (cardiovascular0D4elwindkesselLpZ th pa cqv)
         else if tag = ''syspul'' then Inr (cardiovascular0Dsyspul cl)
         else if tag = ''syspulcap'' then Inr (cardiovascular0Dsyspulcap cl)
         else if tag = ''syspulcap2'' then Inr (cardiovascular0Dsyspulcap2 cl)
         else if tag = ''syspulcaprespir'' then Inr (cardiovascular0Dsyspulcaprespir cl)
         else Inl (NameError ''Unknown 0D modeltype!''))"
  using assms
  by (simp add: initialize_0D_model_def theta_and_parameters_def getitem_def Let_def)

lemma Flow0DProblem_init_model:
  "Flow0DProblem_init sif b io tp mp cp = Inr pb \<Longrightarrow>
   initialize_0D_model tp mp
     (get_default (mp_chamber_models mp)
            (PDict [(''lv'', PStr ''0D_elast''), (''rv'', PStr ''0D_elast''),
                    (''la'', PStr ''0D_elast''), (''ra'', PStr ''0D_elast'')]))
     (get_default (mp_chamber_interfaces mp)
            (PDict [(''lv'', PInt 1), (''rv'', PInt 1), (''la'', PInt 1), (''ra'', PInt 1)]))
     (io_prescribed_path io) (get_default (mp_have_elastance mp) False)
     (get_default (cp_coupling_quantity cp) ''volume'')
     (get_default (mp_valvelaw mp) ''pwlin_pres'') = Inr (cardvasc0D pb)"
  by (auto simp: Flow0DProblem_init_def Let_def split: sum.splits)

lemma Flow0DProblem_init_unknown_fails:
  "mp_modeltype mp = Some tag \<Longrightarrow> tag \<notin> set recognized_modeltypes \<Longrightarrow>
   \<exists>e. Flow0DProblem_init sif b io tp mp cp = Inl e"
proof -
  assume a: "mp_modeltype mp = Some tag" "tag \<notin> set recognized_modeltypes"
  show ?thesis
  proof (cases "Flow0DProblem_init sif b io tp mp cp")
    case (Inl e)
    then show ?thesis by blast
  next
    case (Inr pb)
    from Flow0DProblem_init_model [OF Inr] initialize_0D_model_unknown [OF a]
    show ?thesis by simp
  qed
qed

lemma Flow0DProblem_init_unknown_NameError:
  "mp_modeltype mp = Some tag \<Longrightarrow> tag \<notin> set recognized_modeltypes \<Longrightarrow>
   io_simname io \<noteq> None \<Longrightarrow>
   io_write_results_every_0D io \<noteq> None \<or> io_write_results_every io \<noteq> None \<Longrightarrow>
   io_output_path_0D io \<noteq> None \<or> io_output_path io \<noteq> None \<Longrightarrow>
   Flow0DProblem_init sif b io tp mp cp = Inl (NameError ''Unknown 0D modeltype!'')"
  by (auto simp: Flow0DProblem_init_def Let_def initialize_0D_model_unknown getitem_def
        split: sum.splits option.splits)


lemma initialize_0D_model_recognised:
  assumes "mp_modeltype mp = Some tag" "tag \<in> set recognized_modeltypes"
    "tp_theta_ost tp = Some th" "mp_parameters mp = Some pa"
  shows "initialize_0D_model tp mp cm ci pp he cqv vl =
     Inr (if tag = ''2elwindkessel'' then cardiovascular0D2elwindkessel th pa cqv
          else if tag = ''4elwindkesselLsZ'' then cardiovascular0D4elwindkesselLsZ th pa cqv
          else if tag = ''4elwindkesselLpZ'' then cardiovascular0D4elwindkesselLpZ th pa cqv
          else if tag = ''syspul'' then cardiovascular0Dsyspul
                 \<lparr>cl_theta = th, cl_params = pa, cl_chmodels = cm, cl_chinterf = ci,
                  cl_prescrpath = pp, cl_have_elast = he, cl_cq = cqv, cl_valvelaw = vl\<rparr>
          else if tag = ''syspulcap'' then cardiovascular0Dsyspulcap
                 \<lparr>cl_theta = th, cl_params = pa, cl_chmodels = cm, cl_chinterf = ci,
                  cl_prescrpath = pp, cl_have_elast = he, cl_cq = cqv, cl_valvelaw = vl\<rparr>
          else if tag = ''syspulcap2'' then cardiovascular0Dsyspulcap2
                 \<lparr>cl_theta = th, cl_params = pa, cl_chmodels = cm, cl_chinterf = ci,
                  cl_prescrpath = pp, cl_have_elast = he, cl_cq = cqv, cl_valvelaw = vl\<rparr>
          else cardiovascular0Dsyspulcaprespir
                 \<lparr>cl_theta = th, cl_params = pa, cl_chmodels = cm, cl_chinterf = ci,
                  cl_prescrpath = pp, cl_have_elast = he, cl_cq = cqv, cl_valvelaw = vl\<rparr>)"
proof -
  from assms(2) consider "tag = ''2elwindkessel''" | "tag = ''4elwindkesselLsZ''"
    | "tag = ''4elwindkesselLpZ''" | "tag = ''syspul''" | "tag = ''syspulcap''"
    | "tag = ''syspulcap2''" | "tag = ''syspulcaprespir''"
    unfolding recognized_modeltypes_def by (simp only: list.set insert_iff empty_iff) metis
  then show ?thesis
    unfolding initialize_0D_model_known [OF assms(1,3,4)] Let_def
    by cases simp_all
qed

lemma Flow0DProblem_init_succeeds:
  assumes m: "initialize_0D_model tp mp
         (get_default (mp_chamber_models mp)
            (PDict [(''lv'', PStr ''0D_elast''), (''rv'', PStr ''0D_elast''),
                    (''la'', PStr ''0D_elast''), (''ra'', PStr ''0D_elast'')]))
         (get_default (mp_chamber_interfaces mp)
            (PDict [(''lv'', PInt 1), (''rv'', PInt 1), (''la'', PInt 1), (''ra'', PInt 1)]))
         (io_prescribed_path io) (get_default (mp_have_elastance mp) False)
         (get_default (cp_coupling_quantity cp) ''volume'')
         (get_default (mp_valvelaw mp) ''pwlin_pres'') = Inr cv"
    and k: "io_simname io \<noteq> None" "tp_theta_ost tp \<noteq> None"
      "io_write_results_every_0D io \<noteq> None \<or> io_write_results_every io \<noteq> None"
      "io_output_path_0D io \<noteq> None \<or> io_output_path io \<noteq> None"
      "get_default (tp_initial_file tp) [] \<noteq> [] \<or> tp_initial_conditions tp \<noteq> None"
  shows "\<exists>pb. Flow0DProblem_init sif b io tp mp cp = Inr pb \<and> cardvasc0D pb = cv"
proof -
  from k(1) obtain sn where sn: "getitem (io_simname io) ''simname'' = Inr sn"
    by (auto simp: getitem_def)
  from k(2) obtain th where th: "getitem (tp_theta_ost tp) ''theta_ost'' = Inr th"
    by (auto simp: getitem_def)
  have "\<exists>w. (case io_write_results_every_0D io of
        Some w \<Rightarrow> Inr w
      | None \<Rightarrow> getitem (io_write_results_every io) ''write_results_every'') = Inr w"
    using k(3)
    by (cases "io_write_results_every_0D io"; cases "io_write_results_every io")
       (simp_all add: getitem_def)
  then obtain w where w:
    "(case io_write_results_every_0D io of
        Some w \<Rightarrow> Inr w
      | None \<Rightarrow> getitem (io_write_results_every io) ''write_results_every'') = Inr w"
    by blast
  have "\<exists>outp. (case io_output_path_0D io of
        Some p \<Rightarrow> Inr p
      | None \<Rightarrow> getitem (io_output_path io) ''output_path'') = Inr outp"
    using k(4)
    by (cases "io_output_path_0D io"; cases "io_output_path io")
       (simp_all add: getitem_def)
  then obtain outp where outp:
    "(case io_output_path_0D io of
        Some p \<Rightarrow> Inr p
      | None \<Rightarrow> getitem (io_output_path io) ''output_path'') = Inr outp"
    by blast
  have "\<exists>ic. (if get_default (tp_initial_file tp) [] \<noteq> []
      then Inr (sif cv (get_default (tp_initial_file tp) []))
      else getitem (tp_initial_conditions tp) ''initial_conditions'') = Inr ic"
    using k(5) by (cases "tp_initial_conditions tp") (simp_all add: getitem_def)
  then obtain ic where ic:
    "(if get_default (tp_initial_file tp) [] \<noteq> []
      then Inr (sif cv (get_default (tp_initial_file tp) []))
      else getitem (tp_initial_conditions tp) ''initial_conditions'') = Inr ic"
    by blast
  show ?thesis
    unfolding Flow0DProblem_init_def Let_def sn w outp m sum.case ic th
    by simp
qed

text \<open>
  Claim C7. Let the model parameters carry the tag \<open>tag\<close>. If \<open>tag\<close> is not one of the
  seven recognised tags, the constructor of the 0D flow problem fails: the model
  selection raises \<^verbatim>\<open>NameError("Unknown 0D modeltype!")\<close>, and this is the error of
  the constructor whenever the entries it reads before the selection
  (\<^verbatim>\<open>simname\<close>, a write frequency, an output path) are present. No problem object
  exists then, so no time step and no Newton iteration is performed. If \<open>tag\<close> is one
  of the seven recognised tags and the entries that the constructor requires are
  present (\<^verbatim>\<open>simname\<close>, a write frequency, an output path, \<^verbatim>\<open>theta_ost\<close>,
  \<^verbatim>\<open>parameters\<close>, and initial conditions or a file of them), the constructor
  returns a problem object whose model is the instance of the class of that tag, built
  with the arguments of the source. A constructor that succeeds, with whatever
  entries, has a recognised tag.
\<close>

theorem Flow0DProblem_modeltype_dispatch:
  assumes "mp_modeltype mp = Some tag"
  shows
   "(tag \<notin> set recognized_modeltypes \<longrightarrow>
       (\<exists>e. Flow0DProblem_init sif b io tp mp cp = Inl e) \<and>
       initialize_0D_model tp mp cm ci pp he cqv vl = Inl (NameError ''Unknown 0D modeltype!'') \<and>
       (io_simname io \<noteq> None \<and>
        (io_write_results_every_0D io \<noteq> None \<or> io_write_results_every io \<noteq> None) \<and>
        (io_output_path_0D io \<noteq> None \<or> io_output_path io \<noteq> None) \<longrightarrow>
        Flow0DProblem_init sif b io tp mp cp = Inl (NameError ''Unknown 0D modeltype!''))) \<and>
    (tag \<in> set recognized_modeltypes \<longrightarrow>
       (\<forall>th pa.
          tp_theta_ost tp = Some th \<and> mp_parameters mp = Some pa \<and> io_simname io \<noteq> None \<and>
          (io_write_results_every_0D io \<noteq> None \<or> io_write_results_every io \<noteq> None) \<and>
          (io_output_path_0D io \<noteq> None \<or> io_output_path io \<noteq> None) \<and>
          (get_default (tp_initial_file tp) [] \<noteq> [] \<or> tp_initial_conditions tp \<noteq> None) \<longrightarrow>
          (\<exists>pb. Flow0DProblem_init sif b io tp mp cp = Inr pb \<and>
             cardvasc0D pb =
               (let cqv0 = get_default (cp_coupling_quantity cp) ''volume'';
                    cl0 = \<lparr>cl_theta = th, cl_params = pa,
                       cl_chmodels = get_default (mp_chamber_models mp)
                         (PDict [(''lv'', PStr ''0D_elast''), (''rv'', PStr ''0D_elast''),
                                 (''la'', PStr ''0D_elast''), (''ra'', PStr ''0D_elast'')]),
                       cl_chinterf = get_default (mp_chamber_interfaces mp)
                         (PDict [(''lv'', PInt 1), (''rv'', PInt 1), (''la'', PInt 1),
                                 (''ra'', PInt 1)]),
                       cl_prescrpath = io_prescribed_path io,
                       cl_have_elast = get_default (mp_have_elastance mp) False,
                       cl_cq = cqv0,
                       cl_valvelaw = get_default (mp_valvelaw mp) ''pwlin_pres''\<rparr>
                in if tag = ''2elwindkessel'' then cardiovascular0D2elwindkessel th pa cqv0
                   else if tag = ''4elwindkesselLsZ'' then cardiovascular0D4elwindkesselLsZ th pa cqv0
                   else if tag = ''4elwindkesselLpZ'' then cardiovascular0D4elwindkesselLpZ th pa cqv0
                   else if tag = ''syspul'' then cardiovascular0Dsyspul cl0
                   else if tag = ''syspulcap'' then cardiovascular0Dsyspulcap cl0
                   else if tag = ''syspulcap2'' then cardiovascular0Dsyspulcap2 cl0
                   else cardiovascular0Dsyspulcaprespir cl0)))) \<and>
    (\<forall>pb. Flow0DProblem_init sif b io tp mp cp = Inr pb \<longrightarrow>
       tag \<in> set recognized_modeltypes \<and>
       initialize_0D_model tp mp
         (get_default (mp_chamber_models mp)
            (PDict [(''lv'', PStr ''0D_elast''), (''rv'', PStr ''0D_elast''),
                    (''la'', PStr ''0D_elast''), (''ra'', PStr ''0D_elast'')]))
         (get_default (mp_chamber_interfaces mp)
            (PDict [(''lv'', PInt 1), (''rv'', PInt 1), (''la'', PInt 1), (''ra'', PInt 1)]))
         (io_prescribed_path io) (get_default (mp_have_elastance mp) False)
         (get_default (cp_coupling_quantity cp) ''volume'')
         (get_default (mp_valvelaw mp) ''pwlin_pres'') = Inr (cardvasc0D pb))"
proof (intro conjI allI impI)
  assume "tag \<notin> set recognized_modeltypes"
  then show "\<exists>e. Flow0DProblem_init sif b io tp mp cp = Inl e"
    using assms by (rule Flow0DProblem_init_unknown_fails [rotated])
next
  assume "tag \<notin> set recognized_modeltypes"
  with assms show "initialize_0D_model tp mp cm ci pp he cqv vl = Inl (NameError ''Unknown 0D modeltype!'')"
    by (rule initialize_0D_model_unknown)
next
  assume "tag \<notin> set recognized_modeltypes"
    and "io_simname io \<noteq> None \<and>
        (io_write_results_every_0D io \<noteq> None \<or> io_write_results_every io \<noteq> None) \<and>
        (io_output_path_0D io \<noteq> None \<or> io_output_path io \<noteq> None)"
  with assms show "Flow0DProblem_init sif b io tp mp cp = Inl (NameError ''Unknown 0D modeltype!'')"
    by (simp add: Flow0DProblem_init_unknown_NameError)
next
  fix th pa
  assume r: "tag \<in> set recognized_modeltypes"
    and k: "tp_theta_ost tp = Some th \<and> mp_parameters mp = Some pa \<and> io_simname io \<noteq> None \<and>
          (io_write_results_every_0D io \<noteq> None \<or> io_write_results_every io \<noteq> None) \<and>
          (io_output_path_0D io \<noteq> None \<or> io_output_path io \<noteq> None) \<and>
          (get_default (tp_initial_file tp) [] \<noteq> [] \<or> tp_initial_conditions tp \<noteq> None)"
  from k have th: "tp_theta_ost tp = Some th" and pa: "mp_parameters mp = Some pa" by simp_all
  from k have k': "io_simname io \<noteq> None" "tp_theta_ost tp \<noteq> None"
      "io_write_results_every_0D io \<noteq> None \<or> io_write_results_every io \<noteq> None"
      "io_output_path_0D io \<noteq> None \<or> io_output_path io \<noteq> None"
      "get_default (tp_initial_file tp) [] \<noteq> [] \<or> tp_initial_conditions tp \<noteq> None"
    by simp_all
  from Flow0DProblem_init_succeeds [OF initialize_0D_model_recognised [OF assms r th pa] k']
  show "\<exists>pb. Flow0DProblem_init sif b io tp mp cp = Inr pb \<and>
             cardvasc0D pb =
               (let cqv0 = get_default (cp_coupling_quantity cp) ''volume'';
                    cl0 = \<lparr>cl_theta = th, cl_params = pa,
                       cl_chmodels = get_default (mp_chamber_models mp)
                         (PDict [(''lv'', PStr ''0D_elast''), (''rv'', PStr ''0D_elast''),
                                 (''la'', PStr ''0D_elast''), (''ra'', PStr ''0D_elast'')]),
                       cl_chinterf = get_default (mp_chamber_interfaces mp)
                         (PDict [(''lv'', PInt 1), (''rv'', PInt 1), (''la'', PInt 1),
                                 (''ra'', PInt 1)]),
                       cl_prescrpath = io_prescribed_path io,
                       cl_have_elast = get_default (mp_have_elastance mp) False,
                       cl_cq = cqv0,
                       cl_valvelaw = get_default (mp_valvelaw mp) ''pwlin_pres''\<rparr>
                in if tag = ''2elwindkessel'' then cardiovascular0D2elwindkessel th pa cqv0
                   else if tag = ''4elwindkesselLsZ'' then cardiovascular0D4elwindkesselLsZ th pa cqv0
                   else if tag = ''4elwindkesselLpZ'' then cardiovascular0D4elwindkesselLpZ th pa cqv0
                   else if tag = ''syspul'' then cardiovascular0Dsyspul cl0
                   else if tag = ''syspulcap'' then cardiovascular0Dsyspulcap cl0
                   else if tag = ''syspulcap2'' then cardiovascular0Dsyspulcap2 cl0
                   else cardiovascular0Dsyspulcaprespir cl0)"
    unfolding Let_def .
next
  fix pb assume pb: "Flow0DProblem_init sif b io tp mp cp = Inr pb"
  show "tag \<in> set recognized_modeltypes"
  proof (rule ccontr)
    assume "tag \<notin> set recognized_modeltypes"
    from Flow0DProblem_init_unknown_fails [OF assms this, of sif b io tp cp] pb
    show False by simp
  qed
next
  fix pb assume pb: "Flow0DProblem_init sif b io tp mp cp = Inr pb"
  then show "initialize_0D_model tp mp
         (get_default (mp_chamber_models mp)
            (PDict [(''lv'', PStr ''0D_elast''), (''rv'', PStr ''0D_elast''),
                    (''la'', PStr ''0D_elast''), (''ra'', PStr ''0D_elast'')]))
         (get_default (mp_chamber_interfaces mp)
            (PDict [(''lv'', PInt 1), (''rv'', PInt 1), (''la'', PInt 1), (''ra'', PInt 1)]))
         (io_prescribed_path io) (get_default (mp_have_elastance mp) False)
         (get_default (cp_coupling_quantity cp) ''volume'')
         (get_default (mp_valvelaw mp) ''pwlin_pres'') = Inr (cardvasc0D pb)"
    by (rule Flow0DProblem_init_model)
qed

text \<open>
  C7 at the unknown tag \<^verbatim>\<open>'3elwindkessel'\<close> and at the tag \<^verbatim>\<open>'syspul'\<close>, on the
  dictionaries of the demo otherwise: the constructor raises for the first, and returns
  an object holding the \<^verbatim>\<open>syspul\<close> model for the second.
\<close>

theorem Flow0DProblem_modeltype_dispatch_witness:
  "Flow0DProblem_init (\<lambda>cv file. PNone)
     \<lparr>dt = 1 / 100, numstep = 300, restart_step = 0, t_init = 0\<rparr>
     \<lparr>io_simname = Some ''flow0d_heart_cycle'', io_prescribed_path = None,
      io_write_results_every_0D = None, io_write_results_every = Some 1,
      io_write_restart_every = None, io_output_path_0D = None, io_output_path = Some ''tmp''\<rparr>
     \<lparr>tp_initial_file = None, tp_eps_periodic = None, tp_periodic_checktype = None,
      tp_theta_ost = Some (1 / 2), tp_initial_conditions = Some (PDict [])\<rparr>
     \<lparr>mp_chamber_models = None, mp_chamber_interfaces = None, mp_have_elastance = None,
      mp_valvelaw = None, mp_prescribed_variables = None, mp_perturb_type = None,
      mp_perturb_after_cylce = None, mp_modeltype = Some ''3elwindkessel'',
      mp_parameters = Some (PDict [])\<rparr>
     \<lparr>cp_coupling_quantity = None\<rparr>
   = Inl (NameError ''Unknown 0D modeltype!'') \<and>
   (\<exists>pb. Flow0DProblem_init (\<lambda>cv file. PNone)
     \<lparr>dt = 1 / 100, numstep = 300, restart_step = 0, t_init = 0\<rparr>
     \<lparr>io_simname = Some ''flow0d_heart_cycle'', io_prescribed_path = None,
      io_write_results_every_0D = None, io_write_results_every = Some 1,
      io_write_restart_every = None, io_output_path_0D = None, io_output_path = Some ''tmp''\<rparr>
     \<lparr>tp_initial_file = None, tp_eps_periodic = None, tp_periodic_checktype = None,
      tp_theta_ost = Some (1 / 2), tp_initial_conditions = Some (PDict [])\<rparr>
     \<lparr>mp_chamber_models = None, mp_chamber_interfaces = None, mp_have_elastance = None,
      mp_valvelaw = None, mp_prescribed_variables = None, mp_perturb_type = None,
      mp_perturb_after_cylce = None, mp_modeltype = Some ''syspul'',
      mp_parameters = Some (PDict [])\<rparr>
     \<lparr>cp_coupling_quantity = None\<rparr> = Inr pb \<and>
     cardvasc0D pb =
       cardiovascular0Dsyspul
         \<lparr>cl_theta = 1 / 2, cl_params = PDict [],
          cl_chmodels = PDict [(''lv'', PStr ''0D_elast''), (''rv'', PStr ''0D_elast''),
                               (''la'', PStr ''0D_elast''), (''ra'', PStr ''0D_elast'')],
          cl_chinterf = PDict [(''lv'', PInt 1), (''rv'', PInt 1), (''la'', PInt 1),
                               (''ra'', PInt 1)],
          cl_prescrpath = None, cl_have_elast = False, cl_cq = ''volume'',
          cl_valvelaw = ''pwlin_pres''\<rparr>)"
  using Flow0DProblem_modeltype_dispatch [where
     mp = "\<lparr>mp_chamber_models = None, mp_chamber_interfaces = None, mp_have_elastance = None,
      mp_valvelaw = None, mp_prescribed_variables = None, mp_perturb_type = None,
      mp_perturb_after_cylce = None, mp_modeltype = Some ''3elwindkessel'',
      mp_parameters = Some (PDict [])\<rparr>" and tag = "''3elwindkessel''"
     and sif = "\<lambda>cv file. PNone"
     and b = "\<lparr>dt = 1 / 100, numstep = 300, restart_step = 0, t_init = 0\<rparr>"
     and io = "\<lparr>io_simname = Some ''flow0d_heart_cycle'', io_prescribed_path = None,
      io_write_results_every_0D = None, io_write_results_every = Some 1,
      io_write_restart_every = None, io_output_path_0D = None, io_output_path = Some ''tmp''\<rparr>"
     and tp = "\<lparr>tp_initial_file = None, tp_eps_periodic = None, tp_periodic_checktype = None,
      tp_theta_ost = Some (1 / 2), tp_initial_conditions = Some (PDict [])\<rparr>"
     and cp = "\<lparr>cp_coupling_quantity = None\<rparr>"]
    Flow0DProblem_modeltype_dispatch [where
     mp = "\<lparr>mp_chamber_models = None, mp_chamber_interfaces = None, mp_have_elastance = None,
      mp_valvelaw = None, mp_prescribed_variables = None, mp_perturb_type = None,
      mp_perturb_after_cylce = None, mp_modeltype = Some ''syspul'',
      mp_parameters = Some (PDict [])\<rparr>" and tag = "''syspul''"
     and sif = "\<lambda>cv file. PNone"
     and b = "\<lparr>dt = 1 / 100, numstep = 300, restart_step = 0, t_init = 0\<rparr>"
     and io = "\<lparr>io_simname = Some ''flow0d_heart_cycle'', io_prescribed_path = None,
      io_write_results_every_0D = None, io_write_results_every = Some 1,
      io_write_restart_every = None, io_output_path_0D = None, io_output_path = Some ''tmp''\<rparr>"
     and tp = "\<lparr>tp_initial_file = None, tp_eps_periodic = None, tp_periodic_checktype = None,
      tp_theta_ost = Some (1 / 2), tp_initial_conditions = Some (PDict [])\<rparr>"
     and cp = "\<lparr>cp_coupling_quantity = None\<rparr>"]
  by (simp add: recognized_modeltypes_def get_default_def Let_def)

section \<open>Properties of the time loop\<close>

lemma Flow0DProblem_init_eps:
  "Flow0DProblem_init sif b io tp mp cp = Inr pb \<Longrightarrow>
   eps_periodic pb = get_default (tp_eps_periodic tp) (1 / 10 ^ 20) \<and>
   periodic_checktype pb = get_default (tp_periodic_checktype tp) (CheckStr ''allvar'')"
  by (auto simp: Flow0DProblem_init_def Let_def split: sum.splits)

lemma store_solution_cc:
  "store_solution (M\<lparr>cv_cycle_check := g\<rparr>) pb N t c1 x st = store_solution M pb N t c1 x st"
  by (simp add: store_solution_def)

lemma perturbation_step_cc:
  "perturbation_step (M\<lparr>cv_cycle_check := g\<rparr>) pb st = perturbation_step M pb st"
  by (simp add: perturbation_step_def cong: option.case_cong)

lemma break_step_cc:
  "break_step (M\<lparr>cv_cycle_check := g\<rparr>) N p st = break_step M N p st"
  by (simp add: break_step_def)

lemma newton_call_cc:
  "newton_call (M\<lparr>cv_cycle_check := g\<rparr>) pb N st = newton_call M pb N st"
  by (simp add: newton_call_def)

lemma time_step_cc:
  assumes "\<And>tr st. cycle_check_step (M\<lparr>cv_cycle_check := g\<rparr>) pb tr st = cycle_check_step M pb tr st"
  shows "time_step (M\<lparr>cv_cycle_check := g\<rparr>) pb N st = time_step M pb N st"
proof -
  have "after_newton (M\<lparr>cv_cycle_check := g\<rparr>) pb N st t toff c1 x = after_newton M pb N st t toff c1 x"
    for t toff c1 x
    by (simp only: after_newton_def store_solution_cc perturbation_step_cc break_step_cc assms)
  then show ?thesis
    by (simp add: time_step_def newton_call_cc cong: sum.case_cong)
qed

text \<open>
  Claim C10. For a problem object that the constructor built from time parameters
  without \<^verbatim>\<open>eps_periodic\<close>, the tolerance is \<open>1e-20\<close>, this is the tolerance in the
  argument list of every call of the cycle check, and a step of the time loop is the
  same whatever tolerance the cycle check is made to see in its place. Likewise the
  check type is the string \<^verbatim>\<open>'allvar'\<close> when \<^verbatim>\<open>periodic_checktype\<close> is omitted.
\<close>

theorem default_periodicity_tolerance:
  assumes "Flow0DProblem_init sif b io tp mp cp = Inr pb"
  shows "(tp_eps_periodic tp = None \<longrightarrow>
            eps_periodic pb = 1 / 10 ^ 20 \<and>
            (\<forall>(st :: 'm flow0d_state) t. cc_eps_periodic (cycle_check_call pb st t) = 1 / 10 ^ 20) \<and>
            (\<forall>(M :: 'm externals) N st.
               time_step (M\<lparr>cv_cycle_check := \<lambda>m a. cv_cycle_check M m
                   (a\<lparr>cc_eps_periodic := 1 / 10 ^ 20\<rparr>)\<rparr>) pb N st = time_step M pb N st)) \<and>
         (tp_periodic_checktype tp = None \<longrightarrow>
            periodic_checktype pb = CheckStr ''allvar'' \<and>
            (\<forall>(st :: 'm flow0d_state) t. cc_check (cycle_check_call pb st t) = CheckStr ''allvar'') \<and>
            (\<forall>(M :: 'm externals) N st.
               time_step (M\<lparr>cv_cycle_check := \<lambda>m a. cv_cycle_check M m
                   (a\<lparr>cc_check := CheckStr ''allvar''\<rparr>)\<rparr>) pb N st = time_step M pb N st))"
proof (intro conjI impI allI)
  assume n: "tp_eps_periodic tp = None"
  with Flow0DProblem_init_eps [OF assms] show e: "eps_periodic pb = 1 / 10 ^ 20"
    by (simp add: get_default_def)
  show "cc_eps_periodic (cycle_check_call pb st t) = 1 / 10 ^ 20" for st :: "'m flow0d_state" and t
    using e by (simp add: cycle_check_call_def)
  show "time_step (M\<lparr>cv_cycle_check := \<lambda>m a. cv_cycle_check M m
                   (a\<lparr>cc_eps_periodic := 1 / 10 ^ 20\<rparr>)\<rparr>) pb N st = time_step M pb N st"
    for M :: "'m externals" and N st
    by (intro time_step_cc) (simp add: cycle_check_step_def cycle_check_call_def e)
next
  assume n: "tp_periodic_checktype tp = None"
  with Flow0DProblem_init_eps [OF assms] show e: "periodic_checktype pb = CheckStr ''allvar''"
    by (simp add: get_default_def)
  show "cc_check (cycle_check_call pb st t) = CheckStr ''allvar''" for st :: "'m flow0d_state" and t
    using e by (simp add: cycle_check_call_def)
  show "time_step (M\<lparr>cv_cycle_check := \<lambda>m a. cv_cycle_check M m
                   (a\<lparr>cc_check := CheckStr ''allvar''\<rparr>)\<rparr>) pb N st = time_step M pb N st"
    for M :: "'m externals" and N st
    by (intro time_step_cc) (simp add: cycle_check_step_def cycle_check_call_def e)
qed

lemma Flow0DProblem_init_example:
  "Flow0DProblem_init (\<lambda>cv file. PNone)
     \<lparr>dt = 1 / 100, numstep = 300, restart_step = 0, t_init = 0\<rparr>
     \<lparr>io_simname = Some ''flow0d_heart_cycle'', io_prescribed_path = None,
      io_write_results_every_0D = None, io_write_results_every = Some 1,
      io_write_restart_every = None, io_output_path_0D = None, io_output_path = Some ''tmp''\<rparr>
     \<lparr>tp_initial_file = None, tp_eps_periodic = None, tp_periodic_checktype = None,
      tp_theta_ost = Some (1 / 2), tp_initial_conditions = Some (PDict [])\<rparr>
     \<lparr>mp_chamber_models = None, mp_chamber_interfaces = None, mp_have_elastance = None,
      mp_valvelaw = None, mp_prescribed_variables = None, mp_perturb_type = None,
      mp_perturb_after_cylce = None, mp_modeltype = Some ''2elwindkessel'',
      mp_parameters = Some (PDict [])\<rparr>
     \<lparr>cp_coupling_quantity = None\<rparr>
   = Inr \<lparr>base = \<lparr>dt = 1 / 100, numstep = 300, restart_step = 0, t_init = 0\<rparr>,
          problem_physics = ''flow0d'', simname = ''flow0d_heart_cycle'',
          write_results_every_0D = 1, write_restart_every = - 1,
          output_path_0D = ''tmp'', cq = ''volume'', eps_periodic = 1 / 10 ^ 20,
          periodic_checktype = CheckStr ''allvar'', prescribed_variables = PDict [],
          perturb_type = None, perturb_after_cylce = - 1,
          cardvasc0D = cardiovascular0D2elwindkessel (1 / 2) (PDict []) ''volume'',
          initialconditions = PDict [], theta_ost = 1 / 2\<rparr>"
  by (simp add: Flow0DProblem_init_def initialize_0D_model_def theta_and_parameters_def
        getitem_def get_default_def Let_def)

text \<open>C10 at the problem object of a two-element Windkessel model with both keys omitted.\<close>

theorem default_periodicity_tolerance_witness:
  "eps_periodic \<lparr>base = \<lparr>dt = 1 / 100, numstep = 300, restart_step = 0, t_init = 0\<rparr>,
          problem_physics = ''flow0d'', simname = ''flow0d_heart_cycle'',
          write_results_every_0D = 1, write_restart_every = - 1,
          output_path_0D = ''tmp'', cq = ''volume'', eps_periodic = 1 / 10 ^ 20,
          periodic_checktype = CheckStr ''allvar'', prescribed_variables = PDict [],
          perturb_type = None, perturb_after_cylce = - 1,
          cardvasc0D = cardiovascular0D2elwindkessel (1 / 2) (PDict []) ''volume'',
          initialconditions = PDict [], theta_ost = 1 / 2\<rparr> = 1 / 10 ^ 20 \<and>
   (\<forall>(st :: unit flow0d_state) t.
      cc_check (cycle_check_call \<lparr>base = \<lparr>dt = 1 / 100, numstep = 300, restart_step = 0, t_init = 0\<rparr>,
          problem_physics = ''flow0d'', simname = ''flow0d_heart_cycle'',
          write_results_every_0D = 1, write_restart_every = - 1,
          output_path_0D = ''tmp'', cq = ''volume'', eps_periodic = 1 / 10 ^ 20,
          periodic_checktype = CheckStr ''allvar'', prescribed_variables = PDict [],
          perturb_type = None, perturb_after_cylce = - 1,
          cardvasc0D = cardiovascular0D2elwindkessel (1 / 2) (PDict []) ''volume'',
          initialconditions = PDict [], theta_ost = 1 / 2\<rparr> st t) = CheckStr ''allvar'')"
  using default_periodicity_tolerance [OF Flow0DProblem_init_example, where ?'m = unit]
  by simp

subsection \<open>The midpoint vectors\<close>

lemma advanced_fields:
  assumes "advanced a = advanced b"
  shows "st_s a = st_s b" "st_s_old a = st_s_old b" "st_aux a = st_aux b"
    "st_aux_old a = st_aux_old b" "st_df a = st_df b" "st_df_old a = st_df_old b"
    "st_f a = st_f b" "st_f_old a = st_f_old b" "st_sTc a = st_sTc b"
    "st_sTc_old a = st_sTc_old b" "st_c a = st_c b" "st_cycle a = st_cycle b"
    "st_cycleerror a = st_cycleerror b" "st_model a = st_model b"
    "st_simname a = st_simname b" "st_t_init a = st_t_init b"
proof -
  have sel: "f (advanced a) = f (advanced b)" for f :: "'a flow0d_state \<Rightarrow> 'c"
    using assms by simp
  show "st_s a = st_s b" using sel [of st_s] by (simp add: advanced_def)
  show "st_s_old a = st_s_old b" using sel [of st_s_old] by (simp add: advanced_def)
  show "st_aux a = st_aux b" using sel [of st_aux] by (simp add: advanced_def)
  show "st_aux_old a = st_aux_old b" using sel [of st_aux_old] by (simp add: advanced_def)
  show "st_df a = st_df b" using sel [of st_df] by (simp add: advanced_def)
  show "st_df_old a = st_df_old b" using sel [of st_df_old] by (simp add: advanced_def)
  show "st_f a = st_f b" using sel [of st_f] by (simp add: advanced_def)
  show "st_f_old a = st_f_old b" using sel [of st_f_old] by (simp add: advanced_def)
  show "st_sTc a = st_sTc b" using sel [of st_sTc] by (simp add: advanced_def)
  show "st_sTc_old a = st_sTc_old b" using sel [of st_sTc_old] by (simp add: advanced_def)
  show "st_c a = st_c b" using sel [of st_c] by (simp add: advanced_def)
  show "st_cycle a = st_cycle b" using sel [of st_cycle] by (simp add: advanced_def)
  show "st_cycleerror a = st_cycleerror b" using sel [of st_cycleerror] by (simp add: advanced_def)
  show "st_model a = st_model b" using sel [of st_model] by (simp add: advanced_def)
  show "st_simname a = st_simname b" using sel [of st_simname] by (simp add: advanced_def)
  show "st_t_init a = st_t_init b" using sel [of st_t_init] by (simp add: advanced_def)
qed

lemma advanced_eqI:
  assumes "st_s a = st_s b" "st_s_old a = st_s_old b" "st_aux a = st_aux b"
    "st_aux_old a = st_aux_old b" "st_df a = st_df b" "st_df_old a = st_df_old b"
    "st_f a = st_f b" "st_f_old a = st_f_old b" "st_sTc a = st_sTc b"
    "st_sTc_old a = st_sTc_old b" "st_c a = st_c b" "st_cycle a = st_cycle b"
    "st_cycleerror a = st_cycleerror b" "st_model a = st_model b"
    "st_simname a = st_simname b" "st_t_init a = st_t_init b"
  shows "advanced (a :: 'm flow0d_state) = advanced b"
  using assms by (cases a, cases b) (simp add: advanced_def)

lemma store_solution_frame:
  assumes "advanced a = advanced b"
  shows "advanced (store_solution (M\<lparr>cv_midpoint_avg := g\<rparr>) pb N t c1 x a)
       = advanced (store_solution M pb N t c1 x b)"
  by (rule advanced_eqI) (simp_all add: store_solution_def Let_def advanced_fields [OF assms])

lemma cycle_check_step_frame:
  assumes "advanced a = advanced b"
  shows "advanced (fst (cycle_check_step (M\<lparr>cv_midpoint_avg := g\<rparr>) pb tr a))
       = advanced (fst (cycle_check_step M pb tr b))"
    and "snd (cycle_check_step (M\<lparr>cv_midpoint_avg := g\<rparr>) pb tr a)
       = snd (cycle_check_step M pb tr b)"
proof -
  have c: "cycle_check_call pb a tr = cycle_check_call pb b tr"
    by (simp add: cycle_check_call_def advanced_fields [OF assms])
  show "advanced (fst (cycle_check_step (M\<lparr>cv_midpoint_avg := g\<rparr>) pb tr a))
       = advanced (fst (cycle_check_step M pb tr b))"
    by (rule advanced_eqI) (simp_all add: cycle_check_step_def Let_def c advanced_fields [OF assms])
  show "snd (cycle_check_step (M\<lparr>cv_midpoint_avg := g\<rparr>) pb tr a)
       = snd (cycle_check_step M pb tr b)"
    by (simp add: cycle_check_step_def Let_def c advanced_fields [OF assms])
qed

lemma perturbation_step_frame:
  assumes "advanced a = advanced b"
  shows "advanced (perturbation_step (M\<lparr>cv_midpoint_avg := g\<rparr>) pb a)
       = advanced (perturbation_step M pb b)"
  by (rule advanced_eqI)
     (simp_all add: perturbation_step_def advanced_fields [OF assms] split: option.splits)

lemma output_step_frame:
  assumes "advanced a = advanced b"
  shows "advanced (output_step pb N t a) = advanced (output_step pb N t b)"
  by (rule advanced_eqI) (simp_all add: output_step_def Let_def advanced_fields [OF assms])

lemma break_step_frame:
  assumes "advanced a = advanced b"
  shows "advanced (fst (break_step (M\<lparr>cv_midpoint_avg := g\<rparr>) N p a))
       = advanced (fst (break_step M N p b))"
    and "snd (break_step (M\<lparr>cv_midpoint_avg := g\<rparr>) N p a) = snd (break_step M N p b)"
proof -
  show "advanced (fst (break_step (M\<lparr>cv_midpoint_avg := g\<rparr>) N p a))
       = advanced (fst (break_step M N p b))"
    by (rule advanced_eqI) (simp_all add: break_step_def advanced_fields [OF assms])
  show "snd (break_step (M\<lparr>cv_midpoint_avg := g\<rparr>) N p a) = snd (break_step M N p b)"
    by (simp add: break_step_def)
qed

lemma after_newton_frame:
  assumes "advanced a = advanced b"
  shows "advanced (fst (after_newton (M\<lparr>cv_midpoint_avg := g\<rparr>) pb N a t toff c1 x))
       = advanced (fst (after_newton M pb N b t toff c1 x))"
    and "snd (after_newton (M\<lparr>cv_midpoint_avg := g\<rparr>) pb N a t toff c1 x)
       = snd (after_newton M pb N b t toff c1 x)"
proof -
  let ?M = "M\<lparr>cv_midpoint_avg := g\<rparr>"
  note s1 = store_solution_frame [OF assms, where M = M and g = g and pb = pb and N = N and t = t and ?c1.0 = c1 and x = x]
  note cc = cycle_check_step_frame [OF s1, where M = M and g = g and pb = pb and tr = "t - toff"]
  note s3 = perturbation_step_frame [OF cc(1), where M = M and g = g and pb = pb]
  note s5 = output_step_frame [OF s3, where pb = pb and N = N and t = t]
  note br = break_step_frame [OF s5, where M = M and g = g and N = N]
  show "advanced (fst (after_newton ?M pb N a t toff c1 x))
       = advanced (fst (after_newton M pb N b t toff c1 x))"
    unfolding after_newton_def Let_def cc(2) by (rule br(1))
  show "snd (after_newton ?M pb N a t toff c1 x) = snd (after_newton M pb N b t toff c1 x)"
    unfolding after_newton_def Let_def cc(2) by (rule br(2))
qed

lemma newton_call_frame:
  assumes "advanced a = advanced b"
  shows "newton_call (M\<lparr>cv_midpoint_avg := g\<rparr>) pb N a = newton_call M pb N b"
  by (simp add: newton_call_def Let_def advanced_fields [OF assms] cong: option.case_cong)

lemma time_step_frame:
  assumes "advanced a = advanced b"
  shows "map_sum (\<lambda>e. e) (map_prod advanced (\<lambda>brk. brk)) (time_step (M\<lparr>cv_midpoint_avg := g\<rparr>) pb N a)
       = map_sum (\<lambda>e. e) (map_prod advanced (\<lambda>brk. brk)) (time_step M pb N b)"
proof (cases "solnln_newton M (st_model b) (newton_call M pb N b)")
  case (Inl e)
  then show ?thesis
    by (simp add: time_step_def Let_def newton_call_frame [OF assms] advanced_fields [OF assms])
next
  case (Inr x)
  then show ?thesis
    using after_newton_frame [OF assms, where M = M and g = g and pb = pb and N = N]
    by (simp add: time_step_def Let_def newton_call_frame [OF assms] advanced_fields [OF assms]
          prod_eq_iff)
qed


lemma time_loop_frame:
  "advanced a = advanced b \<Longrightarrow>
   map_sum (\<lambda>e. e) (map_prod (\<lambda>n. n) advanced) (time_loop (M\<lparr>cv_midpoint_avg := g\<rparr>) pb N a)
     = map_sum (\<lambda>e. e) (map_prod (\<lambda>n. n) advanced) (time_loop M pb N b)"
proof (induction M pb N b arbitrary: a rule: time_loop.induct)
  case (1 M pb N b)
  let ?M = "M\<lparr>cv_midpoint_avg := g\<rparr>"
  note fr = time_step_frame [OF "1.prems", where M = M and g = g and pb = pb and N = N]
  show ?case
  proof (cases "N < numstep (base pb) + 1")
    case False
    then show ?thesis
      using "1.prems"
      by (simp add: time_loop.simps [of ?M pb N a] time_loop.simps [of M pb N b])
  next
    case True
    show ?thesis
    proof (cases "time_step M pb N b")
      case (Inl e)
      with fr have "time_step ?M pb N a = Inl e"
        by (cases "time_step ?M pb N a") simp_all
      with Inl True show ?thesis
        by (simp add: time_loop.simps [of ?M pb N a] time_loop.simps [of M pb N b])
    next
      case (Inr y)
      obtain b' brk where y: "y = (b', brk)" by (cases y)
      from fr Inr y obtain a' where a': "time_step ?M pb N a = Inr (a', brk)"
        and adv: "advanced a' = advanced b'"
        by (cases "time_step ?M pb N a") auto
      show ?thesis
      proof (cases brk)
        case True
        with \<open>N < numstep (base pb) + 1\<close> Inr y a' adv show ?thesis
          by (simp add: time_loop.simps [of ?M pb N a] time_loop.simps [of M pb N b])
      next
        case False
        from "1.IH" [OF \<open>N < numstep (base pb) + 1\<close> Inr y [symmetric] False adv]
        have "map_sum (\<lambda>e. e) (map_prod (\<lambda>n. n) advanced) (time_loop ?M pb (N + 1) a')
            = map_sum (\<lambda>e. e) (map_prod (\<lambda>n. n) advanced) (time_loop M pb (N + 1) b')" .
        with \<open>N < numstep (base pb) + 1\<close> Inr y a' False show ?thesis
          by (simp add: time_loop.simps [of ?M pb N a] time_loop.simps [of M pb N b])
      qed
    qed
  qed
qed

lemma readrestart_frame:
  assumes "advanced a = advanced b"
  shows "advanced (readrestart (M\<lparr>cv_midpoint_avg := g\<rparr>) pb sname rst a)
       = advanced (readrestart M pb sname rst b)"
  by (rule advanced_eqI) (simp_all add: readrestart_def Let_def advanced_fields [OF assms])

lemma solve_problem_frame:
  assumes "advanced a = advanced b"
  shows "map_sum (\<lambda>e. e) (map_prod (\<lambda>n. n) advanced) (solve_problem (M\<lparr>cv_midpoint_avg := g\<rparr>) pb a)
       = map_sum (\<lambda>e. e) (map_prod (\<lambda>n. n) advanced) (solve_problem M pb b)"
proof -
  let ?M = "M\<lparr>cv_midpoint_avg := g\<rparr>"
  define a1 where "a1 = (if restart_step (base pb) > 0
                 then (readrestart ?M pb (st_simname a) (restart_step (base pb)) a)
                        \<lparr>st_simname := st_simname a @ ''_r'' @ py_str ?M (restart_step (base pb))\<rparr>
                 else a)"
  define b1 where "b1 = (if restart_step (base pb) > 0
                 then (readrestart M pb (st_simname b) (restart_step (base pb)) b)
                        \<lparr>st_simname := st_simname b @ ''_r'' @ py_str M (restart_step (base pb))\<rparr>
                 else b)"
  have r: "advanced a1 = advanced b1"
  proof (cases "restart_step (base pb) > 0")
    case False
    with assms show ?thesis by (simp add: a1_def b1_def)
  next
    case True
    note rr = readrestart_frame [OF assms, where M = M and g = g and pb = pb
        and sname = "st_simname b" and rst = "restart_step (base pb)"]
    show ?thesis
      by (rule advanced_eqI)
         (simp_all add: a1_def b1_def True advanced_fields [OF assms] advanced_fields [OF rr])
  qed
  define a2 where "a2 = (let c1 = (case ti_timecurves1 ?M of
                  None \<Rightarrow> st_c a1
                | Some tc \<Rightarrow> st_c a1 @ [tc (st_t_init a1)]);
          ev = cv_evaluate ?M (st_model a1) (st_s_old a1) (dt (base pb)) (st_t_init a1) c1
       in a1\<lparr>st_c := c1, st_df_old := fst ev, st_f_old := fst (snd ev),
                    st_aux_old := snd (snd ev)\<rparr>)"
  define b2 where "b2 = (let c1 = (case ti_timecurves1 M of
                  None \<Rightarrow> st_c b1
                | Some tc \<Rightarrow> st_c b1 @ [tc (st_t_init b1)]);
          ev = cv_evaluate M (st_model b1) (st_s_old b1) (dt (base pb)) (st_t_init b1) c1
       in b1\<lparr>st_c := c1, st_df_old := fst ev, st_f_old := fst (snd ev),
                    st_aux_old := snd (snd ev)\<rparr>)"
  have r2: "advanced a2 = advanced b2"
    by (rule advanced_eqI)
       (simp_all add: a2_def b2_def Let_def advanced_fields [OF r] cong: option.case_cong)
  have "solve_problem ?M pb a = time_loop ?M pb (restart_step (base pb) + 1) a2"
    unfolding solve_problem_def a2_def a1_def Let_def by (rule refl)
  moreover have "solve_problem M pb b = time_loop M pb (restart_step (base pb) + 1) b2"
    unfolding solve_problem_def b2_def b1_def Let_def by (rule refl)
  ultimately show ?thesis
    using time_loop_frame [OF r2] by simp
qed

lemma advanced_mid: "advanced (st\<lparr>st_s_mid := m, st_aux_mid := a\<rparr>) = advanced st"
  by (simp add: advanced_def)

lemma time_step_Inr:
  "time_step M pb N st = Inr y \<Longrightarrow>
   \<exists>x. solnln_newton M (st_model st) (newton_call M pb N st) = Inr x \<and>
       y = after_newton M pb N st (real_of_int N * dt (base pb))
             (real_of_int (st_cycle st - 1) * cv_T_cycl M (st_model st))
             (na_c (newton_call M pb N st)) x"
  by (auto simp: time_step_def Let_def split: sum.splits)

lemma time_step_Inl:
  "solnln_newton M (st_model st) (newton_call M pb N st) = Inl e \<Longrightarrow> time_step M pb N st = Inl e"
  by (simp add: time_step_def Let_def)

lemma after_newton_mid:
  "st_s_mid (fst (after_newton M pb N st t toff c1 x)) = cv_midpoint_avg M (st_model st) (fst x) (st_s_old st)"
  "st_aux_mid (fst (after_newton M pb N st t toff c1 x))
     = cv_midpoint_avg M (st_model st) (snd (snd (snd x))) (st_aux_old st)"
  "st_s (fst (after_newton M pb N st t toff c1 x)) = fst x"
  by (simp_all add: after_newton_def break_step_def output_step_def perturbation_step_def
        cycle_check_step_def store_solution_def Let_def split: option.splits)


lemma after_newton_out:
  "\<exists>tl. st_out (fst (after_newton M pb N st t toff c1 x)) =
     st_out st @
       print_to_screen (st_s_mid (fst (after_newton M pb N st t toff c1 x)))
                       (st_aux_mid (fst (after_newton M pb N st t toff c1 x))) #
       print_timestep N t (numstep (base pb)) # tl"
  by (simp add: after_newton_def break_step_def output_step_def perturbation_step_def
        cycle_check_step_def store_solution_def Let_def split: option.splits)

lemma after_newton_write_output:
  "write_output p t' m a n \<in> set (st_out (fst (after_newton M pb N st t toff c1 x))) \<Longrightarrow>
   write_output p t' m a n \<notin> set (st_out st) \<Longrightarrow>
   m = st_s_mid (fst (after_newton M pb N st t toff c1 x)) \<and>
   a = st_aux_mid (fst (after_newton M pb N st t toff c1 x))"
  by (auto simp: after_newton_def break_step_def output_step_def perturbation_step_def
        cycle_check_step_def store_solution_def Let_def split: option.splits if_splits)

text \<open>
  Claim C9. In a step of the time loop the midpoint vectors are computed by
  \<^verbatim>\<open>midpoint_avg\<close> from the solution the Newton solve returned and the old vectors;
  when the Newton solve raises, the step ends with that error and computes nothing.
  The step prints them, and every result file entry the step adds carries them. The
  rest of the state after the step, and after the whole run, is the same for every
  midpoint function and for every content of the midpoint vectors before:
  \<open>s\<close>, \<open>s_old\<close>, \<open>f\<close>, \<open>df\<close> and all other fields carried to the next step never
  depend on them. With the method as the specification describes it the midpoint is
  \<open>\<theta> S_new + (1 - \<theta>) S_old\<close>.
\<close>

theorem midpoint_values_only_for_output:
  "(\<forall>e. solnln_newton M (st_model st) (newton_call M pb N st) = Inl e \<longrightarrow>
        time_step M pb N st = Inl e) \<and>
   (\<forall>st' brk. time_step M pb N st = Inr (st', brk) \<longrightarrow>
      (\<exists>x. solnln_newton M (st_model st) (newton_call M pb N st) = Inr x \<and>
           st_s st' = fst x \<and>
           st_s_mid st' = cv_midpoint_avg M (st_model st) (fst x) (st_s_old st) \<and>
           st_aux_mid st' = cv_midpoint_avg M (st_model st) (snd (snd (snd x))) (st_aux_old st)) \<and>
      (\<exists>tl. st_out st' = st_out st @ print_to_screen (st_s_mid st') (st_aux_mid st') #
                print_timestep N (real_of_int N * dt (base pb)) (numstep (base pb)) # tl) \<and>
      (\<forall>p t' m a n. write_output p t' m a n \<in> set (st_out st') \<and>
           write_output p t' m a n \<notin> set (st_out st) \<longrightarrow>
           m = st_s_mid st' \<and> a = st_aux_mid st')) \<and>
   (\<forall>g m a. map_sum (\<lambda>e. e) (map_prod advanced (\<lambda>brk. brk))
              (time_step (M\<lparr>cv_midpoint_avg := g\<rparr>) pb N (st\<lparr>st_s_mid := m, st_aux_mid := a\<rparr>))
          = map_sum (\<lambda>e. e) (map_prod advanced (\<lambda>brk. brk)) (time_step M pb N st)) \<and>
   (\<forall>g m a. map_sum (\<lambda>e. e) (map_prod (\<lambda>n. n) advanced)
              (solve_problem (M\<lparr>cv_midpoint_avg := g\<rparr>) pb (st\<lparr>st_s_mid := m, st_aux_mid := a\<rparr>))
          = map_sum (\<lambda>e. e) (map_prod (\<lambda>n. n) advanced) (solve_problem M pb st)) \<and>
   (\<forall>(ms :: 'p model_state) v v_old.
       midpoint_avg ms v v_old = map2 (\<lambda>x y. ms_theta ms * x + (1 - ms_theta ms) * y) v v_old)"
proof (intro conjI allI impI)
  fix e assume "solnln_newton M (st_model st) (newton_call M pb N st) = Inl e"
  then show "time_step M pb N st = Inl e" by (rule time_step_Inl)
next
  fix st' brk assume a: "time_step M pb N st = Inr (st', brk)"
  from time_step_Inr [OF a] obtain x
    where x: "solnln_newton M (st_model st) (newton_call M pb N st) = Inr x"
      and y: "(st', brk) = after_newton M pb N st (real_of_int N * dt (base pb))
             (real_of_int (st_cycle st - 1) * cv_T_cycl M (st_model st))
             (na_c (newton_call M pb N st)) x" by blast
  from y have st': "st' = fst (after_newton M pb N st (real_of_int N * dt (base pb))
             (real_of_int (st_cycle st - 1) * cv_T_cycl M (st_model st))
             (na_c (newton_call M pb N st)) x)" by (metis fst_conv)
  show "\<exists>x. solnln_newton M (st_model st) (newton_call M pb N st) = Inr x \<and>
           st_s st' = fst x \<and>
           st_s_mid st' = cv_midpoint_avg M (st_model st) (fst x) (st_s_old st) \<and>
           st_aux_mid st' = cv_midpoint_avg M (st_model st) (snd (snd (snd x))) (st_aux_old st)"
    using x by (simp only: st' after_newton_mid) blast
  show "\<exists>tl. st_out st' = st_out st @ print_to_screen (st_s_mid st') (st_aux_mid st') #
                print_timestep N (real_of_int N * dt (base pb)) (numstep (base pb)) # tl"
    unfolding st' by (rule after_newton_out)
  fix p t' m a n
  assume "write_output p t' m a n \<in> set (st_out st') \<and> write_output p t' m a n \<notin> set (st_out st)"
  then have w: "m = st_s_mid st' \<and> a = st_aux_mid st'"
    unfolding st' using after_newton_write_output by blast
  from w show "m = st_s_mid st'" ..
  from w show "a = st_aux_mid st'" ..
next
  fix g m a
  show "map_sum (\<lambda>e. e) (map_prod advanced (\<lambda>brk. brk))
              (time_step (M\<lparr>cv_midpoint_avg := g\<rparr>) pb N (st\<lparr>st_s_mid := m, st_aux_mid := a\<rparr>))
          = map_sum (\<lambda>e. e) (map_prod advanced (\<lambda>brk. brk)) (time_step M pb N st)"
    by (rule time_step_frame) (rule advanced_mid)
next
  fix g m a
  show "map_sum (\<lambda>e. e) (map_prod (\<lambda>n. n) advanced)
              (solve_problem (M\<lparr>cv_midpoint_avg := g\<rparr>) pb (st\<lparr>st_s_mid := m, st_aux_mid := a\<rparr>))
          = map_sum (\<lambda>e. e) (map_prod (\<lambda>n. n) advanced) (solve_problem M pb st)"
    by (rule solve_problem_frame) (rule advanced_mid)
next
  fix ms :: "'p model_state" and v v_old
  show "midpoint_avg ms v v_old = map2 (\<lambda>x y. ms_theta ms * x + (1 - ms_theta ms) * y) v v_old"
    by (simp add: midpoint_avg_def)
qed

lemma example_step1:
  "time_step example_externals example_problem 1 example_state =
     Inr (\<lparr>st_s = [1], st_s_old = [1], st_s_mid = [1 / 2], st_aux = [],
            st_aux_old = [], st_aux_mid = [], st_df = [], st_df_old = [],
            st_f = [], st_f_old = [], st_sTc = [], st_sTc_old = [0],
            st_c = [], st_cycle = 1, st_cycleerror = 0,
            st_model =
              \<lparr>ms_T_cycl = 1, ms_theta = 1 / 2, ms_params = 0,
                 ms_have_induced_pert = False\<rparr>,
            st_simname = ''run'', st_t_init = 0,
            st_out = [print_to_screen [1 / 2] [], print_timestep 1 (1 / 2) 5]\<rparr>, False)"
  by code_simp

text \<open>C9 at the first step of the small run.\<close>

theorem midpoint_values_only_for_output_witness:
  "(\<exists>x. solnln_newton example_externals (st_model example_state)
            (newton_call example_externals example_problem 1 example_state) = Inr x \<and>
        [1] = fst x \<and>
        [1 / 2] = cv_midpoint_avg example_externals (st_model example_state) (fst x)
                    (st_s_old example_state)) \<and>
   midpoint_avg (st_model example_state) [1] [0] = [1 / 2]"
proof -
  note T = midpoint_values_only_for_output [of example_externals example_state example_problem 1,
      where ?'p = nat]
  from T [THEN conjunct2, THEN conjunct1, rule_format, OF example_step1, THEN conjunct1]
  obtain x where x: "solnln_newton example_externals (st_model example_state)
            (newton_call example_externals example_problem 1 example_state) = Inr x"
    and s: "[1] = fst x"
    and m: "[1 / 2] = cv_midpoint_avg example_externals (st_model example_state) (fst x)
                    (st_s_old example_state)"
    by auto
  from T [THEN conjunct2, THEN conjunct2, THEN conjunct2, THEN conjunct2, rule_format,
      of "st_model example_state" "[1]" "[0]"]
  have "midpoint_avg (st_model example_state) [1] [0] = [1 / 2]"
    by (simp add: example_state_def)
  with x s m show ?thesis by blast
qed

subsection \<open>The cycle counter and the perturbation\<close>







































end
